theory Spec2Isabelle
  imports Complex_Main
begin

section \<open>Tensor entries\<close>

text \<open>
  A tensor entry is a real number or one of the three special values of IEEE arithmetic.
  Rounding, overflow and the sign of zero are not represented: a finite result is the
  exact real result. The special values follow the IEEE rules that torch uses
  (\<open>inf - inf\<close>, \<open>0 * inf\<close>, \<open>0 / 0\<close> and \<open>inf / inf\<close> are NaN, NaN is
  absorbing, \<open>x / 0\<close> is an infinity for \<open>x \<noteq> 0\<close>, every comparison with NaN is false).
\<close>

datatype tfloat = Fin real | PInf | NInf | NaN

fun isnan :: "tfloat \<Rightarrow> bool" where
  "isnan NaN = True"
| "isnan _ = False"

fun isinf :: "tfloat \<Rightarrow> bool" where
  "isinf PInf = True"
| "isinf NInf = True"
| "isinf _ = False"

instantiation tfloat :: "{zero,one,plus,minus,uminus,times,inverse,ord}"
begin

definition zero_tfloat :: tfloat where
  "zero_tfloat = Fin 0"

definition one_tfloat :: tfloat where
  "one_tfloat = Fin 1"

fun uminus_tfloat :: "tfloat \<Rightarrow> tfloat" where
  "uminus_tfloat (Fin a) = Fin (- a)"
| "uminus_tfloat PInf = NInf"
| "uminus_tfloat NInf = PInf"
| "uminus_tfloat NaN = NaN"

fun plus_tfloat :: "tfloat \<Rightarrow> tfloat \<Rightarrow> tfloat" where
  "plus_tfloat NaN _ = NaN"
| "plus_tfloat _ NaN = NaN"
| "plus_tfloat PInf NInf = NaN"
| "plus_tfloat NInf PInf = NaN"
| "plus_tfloat PInf _ = PInf"
| "plus_tfloat _ PInf = PInf"
| "plus_tfloat NInf _ = NInf"
| "plus_tfloat _ NInf = NInf"
| "plus_tfloat (Fin a) (Fin b) = Fin (a + b)"

definition minus_tfloat_def:
  "a - b = a + - (b::tfloat)"

fun times_tfloat :: "tfloat \<Rightarrow> tfloat \<Rightarrow> tfloat" where
  "times_tfloat NaN _ = NaN"
| "times_tfloat _ NaN = NaN"
| "times_tfloat (Fin a) (Fin b) = Fin (a * b)"
| "times_tfloat (Fin a) PInf = (if a = 0 then NaN else if 0 < a then PInf else NInf)"
| "times_tfloat (Fin a) NInf = (if a = 0 then NaN else if 0 < a then NInf else PInf)"
| "times_tfloat PInf (Fin b) = (if b = 0 then NaN else if 0 < b then PInf else NInf)"
| "times_tfloat NInf (Fin b) = (if b = 0 then NaN else if 0 < b then NInf else PInf)"
| "times_tfloat PInf PInf = PInf"
| "times_tfloat NInf NInf = PInf"
| "times_tfloat PInf NInf = NInf"
| "times_tfloat NInf PInf = NInf"

fun divide_tfloat :: "tfloat \<Rightarrow> tfloat \<Rightarrow> tfloat" where
  "divide_tfloat NaN _ = NaN"
| "divide_tfloat _ NaN = NaN"
| "divide_tfloat (Fin a) (Fin b) =
     (if b = 0 then (if a = 0 then NaN else if 0 < a then PInf else NInf) else Fin (a / b))"
| "divide_tfloat (Fin a) _ = Fin 0"
| "divide_tfloat PInf (Fin b) = (if 0 \<le> b then PInf else NInf)"
| "divide_tfloat NInf (Fin b) = (if 0 \<le> b then NInf else PInf)"
| "divide_tfloat _ _ = NaN"

fun inverse_tfloat :: "tfloat \<Rightarrow> tfloat" where
  "inverse_tfloat (Fin a) = (if a = 0 then PInf else Fin (1 / a))"
| "inverse_tfloat PInf = Fin 0"
| "inverse_tfloat NInf = Fin 0"
| "inverse_tfloat NaN = NaN"

fun less_eq_tfloat :: "tfloat \<Rightarrow> tfloat \<Rightarrow> bool" where
  "less_eq_tfloat NaN _ = False"
| "less_eq_tfloat _ NaN = False"
| "less_eq_tfloat NInf _ = True"
| "less_eq_tfloat _ PInf = True"
| "less_eq_tfloat (Fin a) (Fin b) = (a \<le> b)"
| "less_eq_tfloat _ _ = False"

fun less_tfloat :: "tfloat \<Rightarrow> tfloat \<Rightarrow> bool" where
  "less_tfloat NaN _ = False"
| "less_tfloat _ NaN = False"
| "less_tfloat (Fin a) (Fin b) = (a < b)"
| "less_tfloat NInf NInf = False"
| "less_tfloat PInf _ = False"
| "less_tfloat NInf _ = True"
| "less_tfloat _ PInf = True"

instance ..

end

text \<open>\<open>torch.exp\<close> and \<open>torch.log\<close> (\<open>np.log\<close>) on one entry.\<close>

fun texp :: "tfloat \<Rightarrow> tfloat" where
  "texp (Fin a) = Fin (exp a)"
| "texp PInf = PInf"
| "texp NInf = Fin 0"
| "texp NaN = NaN"

fun tlog :: "tfloat \<Rightarrow> tfloat" where
  "tlog (Fin a) = (if 0 < a then Fin (ln a) else if a = 0 then NInf else NaN)"
| "tlog PInf = PInf"
| "tlog NInf = NaN"
| "tlog NaN = NaN"

text \<open>The elementwise \<open>torch.min\<close> and \<open>torch.max\<close> of two entries: a NaN is returned.\<close>

definition tmin2 :: "tfloat \<Rightarrow> tfloat \<Rightarrow> tfloat" where
  "tmin2 a b = (if isnan a \<or> isnan b then NaN else if a \<le> b then a else b)"

definition tmax2 :: "tfloat \<Rightarrow> tfloat \<Rightarrow> tfloat" where
  "tmax2 a b = (if isnan a \<or> isnan b then NaN else if a \<le> b then b else a)"


section \<open>Tensors and errors\<close>

text \<open>
  A tensor of shape \<open>(B,)\<close> or \<open>(B, 1)\<close> is the list of its \<open>B\<close> entries (the unit
  dimension that \<open>keepdim\<close>, \<open>squeeze\<close> and \<open>unsqueeze\<close> add or remove is not
  represented); a tensor of shape \<open>(B, k)\<close> is the list of its \<open>B\<close> rows. A tensor of
  another shape that is only used entrywise (a saliency tensor) is the list of its entries.
  The loss mask is a list of booleans. A Python \<open>dict\<close> is an association list in
  insertion order.
\<close>

type_synonym vec = "tfloat list"
type_synonym mat = "tfloat list list"
type_synonym 'a dict = "(string \<times> 'a) list"

datatype error =
    UnityTrainerException string
  | KeyError string
  | IndexError
  | ZeroDivisionError
  | ValueError
  | TypeError
  | AssertionError
  | RuntimeError

definition bind :: "error + 'a \<Rightarrow> ('a \<Rightarrow> error + 'b) \<Rightarrow> error + 'b" where
  "bind m f = (case m of Inl e \<Rightarrow> Inl e | Inr v \<Rightarrow> f v)"

definition getitem :: "'a dict \<Rightarrow> string \<Rightarrow> error + 'a" where
  "getitem d k = (case map_of d k of None \<Rightarrow> Inl (KeyError k) | Some v \<Rightarrow> Inr v)"

text \<open>\<open>xs[i]\<close> on a Python list: \<open>xs[-k]\<close> is the \<open>k\<close>-th entry from the end.\<close>

definition list_getitem :: "'a list \<Rightarrow> int \<Rightarrow> error + 'a" where
  "list_getitem xs i =
     (if 0 \<le> i \<and> nat i < length xs then Inr (xs ! nat i)
      else if i < 0 \<and> nat (- i) \<le> length xs then Inr (xs ! (length xs - nat (- i)))
      else Inl IndexError)"

definition tsum :: "vec \<Rightarrow> tfloat" where
  "tsum xs = foldl (+) (Fin 0) xs"

definition torch_any :: "vec \<Rightarrow> bool" where
  "torch_any xs = list_ex (\<lambda>x. x \<noteq> Fin 0) xs"

text \<open>\<open>torch.min\<close> and \<open>torch.max\<close> over all entries; torch raises on an empty tensor.\<close>

fun torch_min :: "vec \<Rightarrow> error + tfloat" where
  "torch_min [] = Inl RuntimeError"
| "torch_min (x # xs) = Inr (foldl tmin2 x xs)"

fun torch_max :: "vec \<Rightarrow> error + tfloat" where
  "torch_max [] = Inl RuntimeError"
| "torch_max (x # xs) = Inr (foldl tmax2 x xs)"

definition sum_dim1 :: "mat \<Rightarrow> vec" where
  "sum_dim1 m = map tsum m"

definition mul_mat :: "mat \<Rightarrow> mat \<Rightarrow> mat" where
  "mul_mat a b = map2 (map2 (*)) a b"

definition exp_mat :: "mat \<Rightarrow> mat" where
  "exp_mat a = map (map texp) a"

text \<open>The column slice \<open>t[:, a:b]\<close>.\<close>

definition slice_cols :: "nat \<Rightarrow> nat \<Rightarrow> mat \<Rightarrow> mat" where
  "slice_cols a b m = map (\<lambda>r. take (b - a) (drop a r)) m"

text \<open>
  \<open>torch.mean(torch.stack(ts), dim=0)\<close> for tensors of shape \<open>(B,)\<close> or \<open>(B, 1)\<close>, and
  \<open>torch.mean(torch.stack(ts))\<close> for scalars; \<open>torch.stack\<close> raises on an empty list.
\<close>

definition stack_mean_dim0 :: "vec list \<Rightarrow> error + vec" where
  "stack_mean_dim0 ts =
     (if ts = [] then Inl RuntimeError
      else Inr (map (\<lambda>j. tsum (map (\<lambda>t. t ! j) ts) / Fin (real (length ts)))
                  [0 ..< length (hd ts)]))"

definition stack_mean :: "tfloat list \<Rightarrow> error + tfloat" where
  "stack_mean ts =
     (if ts = [] then Inl RuntimeError else Inr (tsum ts / Fin (real (length ts))))"

text \<open>
  Modelled from the spec: \<open>ModelUtils.masked_mean\<close> is not in the source file. It is the
  sum of the entries whose mask is set over the number of set masks (at least 1);
  \<open>masked_mean0\<close> is the same for a scalar, broadcast over the mask.
\<close>

definition mask_count :: "bool list \<Rightarrow> tfloat" where
  "mask_count masks = Fin (max 1 (real (length (filter id masks))))"

definition masked_mean :: "vec \<Rightarrow> bool list \<Rightarrow> tfloat" where
  "masked_mean t masks =
     tsum (map2 (\<lambda>x m. x * (if m then Fin 1 else Fin 0)) t masks) / mask_count masks"

definition masked_mean0 :: "tfloat \<Rightarrow> bool list \<Rightarrow> tfloat" where
  "masked_mean0 x masks =
     tsum (map (\<lambda>m. x * (if m then Fin 1 else Fin 0)) masks) / mask_count masks"

text \<open>
  Modelled from the spec: \<open>ModelUtils.break_into_branches\<close> is not in the source file. It
  splits the columns of the concatenated logits by the branch cardinalities, in order.
\<close>

fun break_into_branches :: "mat \<Rightarrow> nat list \<Rightarrow> mat list" where
  "break_into_branches m [] = []"
| "break_into_branches m (n # ns) =
     map (take n) m # break_into_branches (map (drop n) m) ns"

text \<open>
  Modelled from the spec: \<open>ModelUtils.actions_to_onehot\<close> is not in the source file. For
  every branch it gives the one-hot slices of the samples' actions: a 1 at the action's
  index, 0 elsewhere (an action is an index below the branch's cardinality).
\<close>

definition one_hot :: "nat \<Rightarrow> nat \<Rightarrow> vec" where
  "one_hot a n = map (\<lambda>j. if j = a then Fin 1 else Fin 0) [0 ..< n]"

definition actions_to_onehot :: "nat list list \<Rightarrow> nat list \<Rightarrow> mat list" where
  "actions_to_onehot discrete_actions action_size =
     map (\<lambda>(i, n). map (\<lambda>row. one_hot (row ! i) n) discrete_actions)
       (enumerate 0 action_size)"

text \<open>
  Modelled from the spec: \<open>ModelUtils.soft_update\<close> is not in the source file. It is
  \<open>target \<leftarrow> \<tau> \<cdot> source + (1 - \<tau>) \<cdot> target\<close>, entrywise over the parameters.
\<close>

definition soft_update :: "vec \<Rightarrow> vec \<Rightarrow> tfloat \<Rightarrow> vec" where
  "soft_update source target tau =
     map2 (\<lambda>s t. tau * s + (Fin 1 - tau) * t) source target"


section \<open>DiverseNetworkVariational\<close>

text \<open>
  The fields of the discriminator that its methods read or write. The encoder, the last
  layer and the dropout modules are external: \<open>predict\<close> is not modelled, and a method
  that calls it takes its results (\<open>prediction\<close>, \<open>mu\<close>) as arguments; the random
  \<open>self._dropout\<close> is an argument \<open>dropout\<close>, present when \<open>has_dropout\<close>.
\<close>

datatype observation_type = DEFAULT | GOAL_SIGNAL

record observation_spec =
  shape :: "nat list"
  observation_type :: observation_type

record action_spec =
  continuous_size :: nat
  discrete_branches :: "nat list"

definition discrete_size :: "action_spec \<Rightarrow> nat" where
  "discrete_size a = length (discrete_branches a)"

record mede_params =
  mede_use_actions :: bool
  mede_saliency_dropout :: tfloat
  mede_drop_actions :: bool
  mede_centered :: bool
  mede_mutual_information :: tfloat
  mede_dropout :: tfloat
  mede_noise :: bool

record mede_network =
  use_actions :: bool
  max_saliency_dropout :: tfloat
  drop_actions :: bool
  centered_reward :: bool
  mutual_information :: tfloat
  observations_sal_drop :: "vec list"
  cont_actions_sal_drop :: vec
  diverse_size :: nat
  has_dropout :: bool
  disc_sizes :: "nat list"
  cont_size :: nat
  z_sigma :: "vec option"
  beta :: "tfloat option"
  diverse_index :: int

definition alpha :: tfloat where
  "alpha = Fin (5 / 10000)"

definition EPSILON :: tfloat where
  "EPSILON = Fin (1 / 10 ^ 7)"

definition zeros :: "nat list \<Rightarrow> vec" where
  "zeros shp = replicate (prod_list shp) (Fin 0)"

text \<open>
  \<open>__init__\<close>: \<open>hidden_units\<close> is the width of the encoder that \<open>NetworkSettings\<close>
  gives (external). The last goal-signal channel gives \<open>_diverse_index\<close> (\<open>-1\<close> when there
  is none); the first one gives \<open>diverse_size\<close>, and indexing an empty list raises.
\<close>

definition mede_init ::
  "observation_spec list \<Rightarrow> action_spec \<Rightarrow> mede_params \<Rightarrow> nat \<Rightarrow> error + mede_network" where
  "mede_init observation_specs aspec params hidden_units =
     (let sigma_start = Fin (1 / 2);
          beta_start = Fin 0
      in case filter (\<lambda>s. observation_type s = GOAL_SIGNAL) observation_specs of
           [] \<Rightarrow> Inl IndexError
         | diverse_spec # _ \<Rightarrow>
             bind (list_getitem (shape diverse_spec) 0) (\<lambda>dsize.
               Inr \<lparr> use_actions = mede_use_actions params,
                     max_saliency_dropout = mede_saliency_dropout params,
                     drop_actions = mede_drop_actions params,
                     centered_reward = mede_centered params,
                     mutual_information = mede_mutual_information params,
                     observations_sal_drop =
                       map (\<lambda>s. zeros (shape s))
                         (filter (\<lambda>s. observation_type s \<noteq> GOAL_SIGNAL) observation_specs),
                     cont_actions_sal_drop = zeros [continuous_size aspec],
                     diverse_size = dsize,
                     has_dropout = (Fin 0 < mede_dropout params),
                     disc_sizes = discrete_branches aspec,
                     cont_size = continuous_size aspec,
                     z_sigma = (if mede_noise params
                                then Some (replicate hidden_units (sigma_start * Fin 1))
                                else None),
                     beta = (if mede_noise params then Some beta_start else None),
                     diverse_index =
                       foldl (\<lambda>d (i, s). if observation_type s = GOAL_SIGNAL then int i else d)
                         (- 1) (enumerate 0 observation_specs) \<rparr>))"

subsection \<open>update_saliency\<close>

text \<open>
  The three statements that turn a saliency tensor into drop rates are the same for an
  observation and for the continuous actions; \<open>saliency_drop\<close> is that block.
\<close>

definition saliency_drop :: "tfloat \<Rightarrow> vec \<Rightarrow> error + vec" where
  "saliency_drop max_drop sal =
     bind (torch_min sal) (\<lambda>lo.
       let drop = map (\<lambda>x. x - lo) sal
       in bind (torch_max drop) (\<lambda>hi.
            let drop = map (\<lambda>x. Fin 1 - x / hi) drop
            in Inr (map (\<lambda>x. x * max_drop) drop)))"

fun update_saliency_loop :: "mede_network \<Rightarrow> nat \<Rightarrow> vec list \<Rightarrow> error + mede_network" where
  "update_saliency_loop st i [] = Inr st"
| "update_saliency_loop st i (sal # rest) =
     (if torch_any sal
      then bind (saliency_drop (max_saliency_dropout st) sal) (\<lambda>drop.
             if i < length (observations_sal_drop st)
             then update_saliency_loop
                    (st\<lparr>observations_sal_drop := (observations_sal_drop st)[i := drop]\<rparr>)
                    (Suc i) rest
             else Inl IndexError)
      else update_saliency_loop st (Suc i) rest)"

definition update_saliency :: "mede_network \<Rightarrow> vec list \<Rightarrow> vec \<Rightarrow> error + mede_network" where
  "update_saliency st sal_observations sal_cont_actions =
     (let sal_observations =
            map snd (filter (\<lambda>(i, x). int i \<noteq> diverse_index st) (enumerate 0 sal_observations))
      in bind (update_saliency_loop st 0 sal_observations) (\<lambda>st.
           if torch_any sal_cont_actions
           then bind (saliency_drop (max_saliency_dropout st) sal_cont_actions) (\<lambda>drop.
                  Inr (st\<lparr>cont_actions_sal_drop := drop\<rparr>))
           else Inr st))"

subsection \<open>rewards\<close>

text \<open>\<open>range(0, stop, step)\<close>; Python raises \<open>ValueError\<close> when the step is zero.\<close>

definition range_step :: "nat \<Rightarrow> nat \<Rightarrow> error + nat list" where
  "range_step stop step =
     (if step = 0 then Inl ValueError
      else Inr (map (\<lambda>k. k * step) [0 ..< (stop + step - 1) div step]))"

definition rewards ::
  "mede_network \<Rightarrow> mat list \<Rightarrow> mat \<Rightarrow> mat \<Rightarrow> (mat \<Rightarrow> mat) \<Rightarrow> error + vec" where
  "rewards st obs_input prediction all_discrete_tensor dropout =
     bind (list_getitem obs_input (diverse_index st)) (\<lambda>truth.
     bind
       (if use_actions st \<and> 0 < length (disc_sizes st)
        then
          (let disc_probs = exp_mat all_discrete_tensor;
               disc_probs = (if has_dropout st \<and> drop_actions st
                             then dropout disc_probs else disc_probs)
           in bind (range_step (sum_list (disc_sizes st) * diverse_size st) (diverse_size st))
                (\<lambda>starts.
                   let action_rewards =
                         map (\<lambda>i. map (\<lambda>x. tlog (x + EPSILON))
                                     (sum_dim1 (mul_mat
                                        (slice_cols i (i + diverse_size st) prediction) truth)))
                           starts;
                       all_rewards = transpose action_rewards;
                       branched_rewards =
                         break_into_branches (mul_mat all_rewards disc_probs) (disc_sizes st)
                   in stack_mean_dim0 (map sum_dim1 branched_rewards)))
        else Inr (map (\<lambda>x. tlog (x + EPSILON)) (sum_dim1 (mul_mat prediction truth))))
       (\<lambda>rewards.
          if centered_reward st
          then (if diverse_size st = 0 then Inl ZeroDivisionError
                else Inr (map (\<lambda>x. x - tlog (Fin (1 / real (diverse_size st)))) rewards))
          else Inr rewards))"

subsection \<open>loss\<close>

definition kl_rows :: "vec \<Rightarrow> mat \<Rightarrow> vec" where
  "kl_rows sigma mu =
     map (\<lambda>row. - tsum (map2 (\<lambda>s m. Fin 1 + tlog (s * s) - Fin (1 / 2) * (m * m) - s * s) sigma row))
       mu"

definition loss ::
  "mede_network \<Rightarrow> mat list \<Rightarrow> mat \<Rightarrow> mat \<Rightarrow> mat \<Rightarrow> (mat \<Rightarrow> mat) \<Rightarrow> bool list \<Rightarrow>
     error + ((tfloat \<times> tfloat \<times> tfloat option \<times> tfloat option \<times> tfloat option) \<times> mede_network)" where
  "loss st obs_input prediction mu all_discrete_tensor dropout masks =
     bind (rewards st obs_input prediction all_discrete_tensor dropout) (\<lambda>r.
       let base_loss = - masked_mean r masks
       in case z_sigma st of
            None \<Rightarrow> Inr ((base_loss, base_loss, None, None, None), st)
          | Some sigma \<Rightarrow>
              (case beta st of
                 None \<Rightarrow> Inl TypeError
               | Some b \<Rightarrow>
                  (let kl_loss = masked_mean (kl_rows sigma mu) masks;
                       vail_loss = b * (kl_loss - mutual_information st);
                       b' = tmax2 (b + alpha * (kl_loss - mutual_information st)) (Fin 0);
                       total_loss = base_loss + vail_loss
                   in Inr ((total_loss, base_loss, Some kl_loss, Some vail_loss, Some b'),
                           st\<lparr>beta := Some b'\<rparr>))))"

subsection \<open>The adaptive weight over repeated calls of loss\<close>

text \<open>
  \<open>beta_after mi kls b\<close>: \<open>b\<close> is the value of \<open>self._beta\<close> of a discriminator built in noise
  mode with target budget \<open>mi\<close>, after calls of \<open>loss\<close> that computed the KL values
  \<open>kls\<close> (real numbers), in this order. Between two calls every other field may have
  changed (the optimizer steps change \<open>_z_sigma\<close> and the encoder). \<open>beta_rule\<close> is the
  update rule as the spec words it.
\<close>

inductive beta_after :: "real \<Rightarrow> real list \<Rightarrow> tfloat option \<Rightarrow> bool" for mi :: real where
  init: "mede_init observation_specs aspec params hidden_units = Inr st \<Longrightarrow> mede_noise params
           \<Longrightarrow> beta_after mi [] (beta st)"
| step: "beta_after mi kls (beta st) \<Longrightarrow> mutual_information st = Fin mi
           \<Longrightarrow> loss st obs_input prediction mu all_discrete_tensor dropout masks
                 = Inr ((total_loss, base_loss, Some (Fin kl), vail_loss, b'), st')
           \<Longrightarrow> beta_after mi (kls @ [kl]) (beta st')"

definition beta_rule :: "real \<Rightarrow> real \<Rightarrow> real \<Rightarrow> real" where
  "beta_rule mi b kl = max 0 (b + 5 / 10000 * (kl - mi))"

definition w_specs :: "observation_spec list" where
  "w_specs = [\<lparr>shape = [2], observation_type = GOAL_SIGNAL\<rparr>]"

definition w_aspec :: action_spec where
  "w_aspec = \<lparr>continuous_size = 0, discrete_branches = []\<rparr>"

definition w_params :: mede_params where
  "w_params = \<lparr>mede_use_actions = False, mede_saliency_dropout = Fin 0, mede_drop_actions = False,
     mede_centered = False, mede_mutual_information = Fin (- 1), mede_dropout = Fin 0,
     mede_noise = True\<rparr>"

subsection \<open>The reward as the spec words it\<close>

text \<open>
  One sample's reward: \<open>log(sum(prediction * truth) + \<epsilon>)\<close>, minus
  \<open>log(1 / diversity_size)\<close> when centering is enabled.
\<close>

definition reward_row :: "mede_network \<Rightarrow> vec \<Rightarrow> vec \<Rightarrow> tfloat" where
  "reward_row st p t =
     (let r = tlog (tsum (map2 (*) p t) + EPSILON)
      in if centered_reward st then r - tlog (Fin (1 / real (diverse_size st))) else r)"

definition w9_net :: mede_network where
  "w9_net = \<lparr>use_actions = False, max_saliency_dropout = Fin 0, drop_actions = False,
     centered_reward = True, mutual_information = Fin 0, observations_sal_drop = [],
     cont_actions_sal_drop = [], diverse_size = 4, has_dropout = False, disc_sizes = [],
     cont_size = 0, z_sigma = None, beta = None, diverse_index = 0\<rparr>"

subsection \<open>Drop rates\<close>

text \<open>
  \<open>drop_rate m xs x\<close> is the drop rate that a channel of saliency \<open>x\<close> gets from the real
  saliency values \<open>xs\<close> and the maximum \<open>m\<close>; \<open>kept_observations\<close> are the saliency
  tensors that \<open>update_saliency\<close> keeps (all but the goal channel's).
\<close>

definition drop_rate :: "real \<Rightarrow> real list \<Rightarrow> real \<Rightarrow> real" where
  "drop_rate m xs x = (1 - (x - Min (set xs)) / (Max (set xs) - Min (set xs))) * m"

definition kept_observations :: "mede_network \<Rightarrow> vec list \<Rightarrow> vec list" where
  "kept_observations st sal_observations =
     map snd (filter (\<lambda>(i, x). int i \<noteq> diverse_index st) (enumerate 0 sal_observations))"

definition c5_net :: mede_network where
  "c5_net = \<lparr>use_actions = False, max_saliency_dropout = Fin (1 / 2), drop_actions = False,
     centered_reward = False, mutual_information = Fin 0,
     observations_sal_drop = [[Fin 0, Fin 0]],
     cont_actions_sal_drop = [Fin 0, Fin 0], diverse_size = 2, has_dropout = False,
     disc_sizes = [], cont_size = 2, z_sigma = None, beta = None, diverse_index = 1\<rparr>"

section \<open>TorchSACOptimizer\<close>

text \<open>
  A value of a per-stream dictionary of network outputs is a tensor of shape \<open>(B,)\<close>
  (\<open>Vec\<close>) or \<open>(B, k)\<close> (\<open>Mat\<close>): the Q networks give \<open>(B,)\<close> without discrete
  actions and one column per discrete action otherwise. The operands of an entrywise
  operation are taken to have the shapes the networks give them; where torch broadcasts
  a one-entry tensor (an entropy coefficient, the zero MEDE reward) the model does too,
  and a shape that cannot occur there is \<open>RuntimeError\<close>.
\<close>

datatype tensor = Vec vec | Mat mat

definition squeeze :: "tensor \<Rightarrow> error + vec" where
  "squeeze t = (case t of Vec v \<Rightarrow> Inr v | Mat m \<Rightarrow> Inl RuntimeError)"

definition as_mat :: "tensor \<Rightarrow> error + mat" where
  "as_mat t = (case t of Mat m \<Rightarrow> Inr m | Vec v \<Rightarrow> Inl RuntimeError)"

fun sequence :: "(error + 'a) list \<Rightarrow> error + 'a list" where
  "sequence [] = Inr []"
| "sequence (m # ms) = bind m (\<lambda>x. bind (sequence ms) (\<lambda>xs. Inr (x # xs)))"

text \<open>Sum of two tensors of shape \<open>(B,)\<close> where one of them may have a single entry.\<close>

definition badd :: "vec \<Rightarrow> vec \<Rightarrow> vec" where
  "badd a b =
     (if length b = 1 then map (\<lambda>x. x + hd b) a
      else if length a = 1 then map (\<lambda>y. hd a + y) b
      else map2 (+) a b)"

text \<open>Product of a tensor of shape \<open>(k,)\<close> or \<open>(1,)\<close> and one of shape \<open>(B, k)\<close>.\<close>

definition mul_rows :: "vec \<Rightarrow> mat \<Rightarrow> mat" where
  "mul_rows c m =
     map (\<lambda>row. if length c = 1 then map (\<lambda>x. hd c * x) row else map2 (*) c row) m"

definition scale :: "tfloat \<Rightarrow> vec \<Rightarrow> vec" where
  "scale c v = map (\<lambda>x. c * x) v"

definition scale_mat :: "tfloat \<Rightarrow> mat \<Rightarrow> mat" where
  "scale_mat c m = map (scale c) m"

text \<open>\<open>torch.nn.functional.mse_loss\<close> with its default reduction, the mean.\<close>

definition mse_loss :: "vec \<Rightarrow> vec \<Rightarrow> tfloat" where
  "mse_loss a b = tsum (map2 (\<lambda>x y. (x - y) * (x - y)) a b) / Fin (real (length a))"

definition mean_dim1 :: "mat \<Rightarrow> vec" where
  "mean_dim1 m = map (\<lambda>row. tsum row / Fin (real (length row))) m"

record action_log_probs =
  continuous_tensor :: mat
  all_discrete_tensor :: mat

record reward_signal_settings =
  gamma :: tfloat

record reward_provider =
  ignore_done :: bool

record target_entropy =
  discrete :: "tfloat list"
  continuous :: tfloat

record log_ent_coef =
  lec_discrete :: vec
  lec_continuous :: vec

record sac_settings =
  hp_tau :: tfloat
  hp_init_entcoef :: tfloat
  hp_mede :: bool
  hp_mede_params :: mede_params
  hp_mede_strength :: tfloat
  hp_mede_for_policy_loss :: bool

record torch_policy =
  shared_critic :: bool
  observation_specs :: "observation_spec list"
  policy_action_spec :: action_spec

text \<open>
  The optimizer. The networks and the four Adam optimizers are external: their
  parameters are not part of the state, and a call that changes them is recorded as a
  \<open>call\<close>, in the order the calls are made.
\<close>

datatype optimizer_id = PolicyOptimizer | ValueOptimizer | EntropyOptimizer | MedeOptimizer

datatype call =
    OptimizerStep optimizer_id tfloat tfloat
  | SoftUpdate tfloat

record sac_optimizer =
  policy :: torch_policy
  tau :: tfloat
  init_entcoef :: tfloat
  discrete_target_entropy_scale :: tfloat
  continuous_target_entropy_scale :: tfloat
  stream_names :: "string list"
  gammas :: "tfloat list"
  use_dones_in_backup :: "int dict"
  opt_action_spec :: action_spec
  opt_log_ent_coef :: log_ent_coef
  opt_target_entropy :: target_entropy
  use_mede :: bool
  opt_mede_network :: "mede_network option"
  opt_mede_saliency_dropout :: tfloat
  mede_strength :: tfloat
  mede_policy_loss :: bool
  sal_observations :: "vec list"
  sal_cont_actions :: vec
  sal_weight :: tfloat

subsection \<open>__init__\<close>

text \<open>
  \<open>reward_signal_configs\<close> is \<open>trainer_params.reward_signals\<close>; \<open>reward_signals\<close> is the
  dictionary of providers that the base class builds from it (external), and
  \<open>hidden_units\<close> the width of the discriminator's encoder. Python's \<open>int(not b)\<close> is 0 or 1.
\<close>

definition sac_init ::
  "torch_policy \<Rightarrow> reward_signal_settings dict \<Rightarrow> reward_provider dict \<Rightarrow> sac_settings \<Rightarrow> nat
     \<Rightarrow> error + (sac_optimizer \<times> call list)" where
  "sac_init pol reward_signal_configs reward_signals hyperparameters hidden_units =
     (if shared_critic pol
      then Inl (UnityTrainerException ''SAC does not support SharedActorCritic'')
      else
        let names = map fst reward_signals;
            aspec = policy_action_spec pol;
            scale_d = Fin (2 / 10);
            scale_c = Fin 1
        in bind (sequence (map (\<lambda>name. bind (getitem reward_signals name) (\<lambda>rs.
                   Inr (name, if ignore_done rs then 0 else (1::int)))) names)) (\<lambda>use_dones.
           bind (if hp_mede hyperparameters
                 then bind (mede_init (observation_specs pol) aspec
                              (hp_mede_params hyperparameters) hidden_units)
                        (\<lambda>n. Inr (Some n))
                 else Inr None) (\<lambda>mede.
           Inr (\<lparr> policy = pol,
                   tau = hp_tau hyperparameters,
                   init_entcoef = hp_init_entcoef hyperparameters,
                   discrete_target_entropy_scale = scale_d,
                   continuous_target_entropy_scale = scale_c,
                   stream_names = names,
                   gammas = map (\<lambda>(k, v). gamma v) reward_signal_configs,
                   use_dones_in_backup = use_dones,
                   opt_action_spec = aspec,
                   opt_log_ent_coef =
                     \<lparr> lec_discrete =
                         map tlog (replicate (length (discrete_branches aspec))
                                     (hp_init_entcoef hyperparameters)),
                       lec_continuous = map tlog [hp_init_entcoef hyperparameters] \<rparr>,
                   opt_target_entropy =
                     \<lparr> discrete =
                         map (\<lambda>i. scale_d * tlog (Fin (real i))) (discrete_branches aspec),
                       continuous = Fin (- 1) * scale_c * Fin (real (continuous_size aspec)) \<rparr>,
                   use_mede = hp_mede hyperparameters,
                   opt_mede_network = mede,
                   opt_mede_saliency_dropout =
                     mede_saliency_dropout (hp_mede_params hyperparameters),
                   mede_strength = hp_mede_strength hyperparameters,
                   mede_policy_loss = hp_mede_for_policy_loss hyperparameters,
                   sal_observations = map (\<lambda>s. zeros (shape s)) (observation_specs pol),
                   sal_cont_actions = zeros [continuous_size aspec],
                   sal_weight = Fin (1 / 100) \<rparr>,
                [SoftUpdate (Fin 1)]))))"

subsection \<open>sac_q_loss\<close>

fun sac_q_loss_streams ::
  "sac_optimizer \<Rightarrow> nat \<Rightarrow> string list \<Rightarrow> tensor dict \<Rightarrow> tensor dict \<Rightarrow> vec dict \<Rightarrow> vec
     \<Rightarrow> vec dict \<Rightarrow> bool list \<Rightarrow> error + (tfloat list \<times> tfloat list)" where
  "sac_q_loss_streams opt i [] q1_out q2_out target_values dones rewards' loss_masks = Inr ([], [])"
| "sac_q_loss_streams opt i (name # names) q1_out q2_out target_values dones rewards' loss_masks =
     bind (bind (getitem q1_out name) squeeze) (\<lambda>q1_stream.
     bind (bind (getitem q2_out name) squeeze) (\<lambda>q2_stream.
     bind (getitem rewards' name) (\<lambda>reward.
     bind (getitem (use_dones_in_backup opt) name) (\<lambda>use_dones.
     bind (list_getitem (gammas opt) (int i)) (\<lambda>gamma_i.
     bind (getitem target_values name) (\<lambda>target_value.
       let q_backup =
             map2 (+) reward
               (map2 (*) (map (\<lambda>d. (Fin 1 - Fin (real_of_int use_dones) * d) * gamma_i) dones)
                  target_value);
           q1_loss = Fin (1 / 2) * masked_mean0 (mse_loss q_backup q1_stream) loss_masks;
           q2_loss = Fin (1 / 2) * masked_mean0 (mse_loss q_backup q2_stream) loss_masks
       in bind (sac_q_loss_streams opt (Suc i) names q1_out q2_out target_values dones rewards'
                  loss_masks)
            (\<lambda>(q1_losses, q2_losses). Inr (q1_loss # q1_losses, q2_loss # q2_losses))))))))"

definition sac_q_loss ::
  "sac_optimizer \<Rightarrow> tensor dict \<Rightarrow> tensor dict \<Rightarrow> vec dict \<Rightarrow> vec \<Rightarrow> vec dict \<Rightarrow> bool list
     \<Rightarrow> error + (tfloat \<times> tfloat)" where
  "sac_q_loss opt q1_out q2_out target_values dones rewards' loss_masks =
     bind (sac_q_loss_streams opt 0 (map fst q1_out) q1_out q2_out target_values dones rewards'
             loss_masks)
       (\<lambda>(q1_losses, q2_losses).
          bind (stack_mean q1_losses) (\<lambda>q1_loss.
          bind (stack_mean q2_losses) (\<lambda>q2_loss. Inr (q1_loss, q2_loss))))"

subsection \<open>_condense_q_streams\<close>

definition condense_q_streams ::
  "sac_optimizer \<Rightarrow> tensor dict \<Rightarrow> nat list list \<Rightarrow> error + tensor dict" where
  "condense_q_streams opt q_output discrete_actions =
     (let onehot_actions =
            actions_to_onehot discrete_actions (discrete_branches (opt_action_spec opt))
      in sequence (map (\<lambda>(key, item).
           bind (as_mat item) (\<lambda>item.
             let branched_q = break_into_branches item (discrete_branches (opt_action_spec opt));
                 only_action_qs =
                   map (\<lambda>(act, q). sum_dim1 (mul_mat act q)) (zip onehot_actions branched_q)
             in bind (stack_mean_dim0 only_action_qs) (\<lambda>c. Inr (key, Vec c))))
           q_output))"

subsection \<open>sac_value_loss\<close>

text \<open>
  \<open>torch.mean(torch.stack([torch.sum(br, dim=1, keepdim=True) for br in branches]), dim=0)\<close>:
  the average over the branches of the per-branch row sums.
\<close>

definition branch_mean :: "mat list \<Rightarrow> error + vec" where
  "branch_mean branches = stack_mean_dim0 (map sum_dim1 branches)"

fun min_policy_q_streams ::
  "sac_optimizer \<Rightarrow> action_log_probs \<Rightarrow> string list \<Rightarrow> tensor dict \<Rightarrow> tensor dict
     \<Rightarrow> error + vec dict" where
  "min_policy_q_streams opt log_probs [] q1p_out q2p_out = Inr []"
| "min_policy_q_streams opt log_probs (name # names) q1p_out q2p_out =
     bind
       (if discrete_size (opt_action_spec opt) \<le> 0
        then bind (bind (getitem q1p_out name) squeeze) (\<lambda>q1p.
             bind (bind (getitem q2p_out name) squeeze) (\<lambda>q2p.
               Inr (map2 tmin2 q1p q2p)))
        else
          (let disc_action_probs = exp_mat (all_discrete_tensor log_probs)
           in bind (bind (getitem q1p_out name) as_mat) (\<lambda>q1p.
                let branched_q1p =
                      break_into_branches (mul_mat q1p disc_action_probs)
                        (discrete_branches (opt_action_spec opt))
                in bind (bind (getitem q2p_out name) as_mat) (\<lambda>q2p.
                     let branched_q2p =
                           break_into_branches (mul_mat q2p disc_action_probs)
                             (discrete_branches (opt_action_spec opt))
                     in bind (branch_mean branched_q1p) (\<lambda>q1p_mean.
                        bind (branch_mean branched_q2p) (\<lambda>q2p_mean.
                          Inr (map2 tmin2 q1p_mean q2p_mean)))))))
       (\<lambda>q. bind (min_policy_q_streams opt log_probs names q1p_out q2p_out)
               (\<lambda>rest. Inr ((name, q) # rest)))"

definition cont_entropy_term :: "sac_optimizer \<Rightarrow> action_log_probs \<Rightarrow> vec" where
  "cont_entropy_term opt log_probs =
     sum_dim1 (mul_rows (map texp (lec_continuous (opt_log_ent_coef opt)))
                 (continuous_tensor log_probs))"

fun value_loss_streams_continuous ::
  "sac_optimizer \<Rightarrow> action_log_probs \<Rightarrow> string list \<Rightarrow> vec dict \<Rightarrow> vec dict \<Rightarrow> bool list
     \<Rightarrow> vec \<Rightarrow> error + tfloat list" where
  "value_loss_streams_continuous opt log_probs [] values min_policy_qs loss_masks mede_rewards =
     Inr []"
| "value_loss_streams_continuous opt log_probs (name # names) values min_policy_qs loss_masks
     mede_rewards =
     bind (getitem min_policy_qs name) (\<lambda>min_q.
       let v_backup = map2 (-) min_q (cont_entropy_term opt log_probs);
           v_backup = badd v_backup (scale (mede_strength opt) mede_rewards)
       in bind (getitem values name) (\<lambda>v.
            let value_loss = Fin (1 / 2) * masked_mean0 (mse_loss v v_backup) loss_masks
            in bind (value_loss_streams_continuous opt log_probs names values min_policy_qs
                       loss_masks mede_rewards)
                 (\<lambda>value_losses. Inr (value_loss # value_losses))))"

fun value_loss_streams_discrete ::
  "sac_optimizer \<Rightarrow> action_log_probs \<Rightarrow> vec list \<Rightarrow> string list \<Rightarrow> vec dict \<Rightarrow> vec dict
     \<Rightarrow> bool list \<Rightarrow> vec \<Rightarrow> error + tfloat list" where
  "value_loss_streams_discrete opt log_probs branched_ent_bonus [] values min_policy_qs
     loss_masks mede_rewards = Inr []"
| "value_loss_streams_discrete opt log_probs branched_ent_bonus (name # names) values
     min_policy_qs loss_masks mede_rewards =
     bind (getitem min_policy_qs name) (\<lambda>min_q.
     bind (stack_mean_dim0 branched_ent_bonus) (\<lambda>ent_bonus.
       let v_backup = map2 (-) min_q ent_bonus;
           v_backup = badd v_backup (scale (mede_strength opt) mede_rewards);
           v_backup = (if 0 < continuous_size (opt_action_spec opt)
                       then map2 (+) v_backup (cont_entropy_term opt log_probs)
                       else v_backup)
       in bind (getitem values name) (\<lambda>v.
            let value_loss = Fin (1 / 2) * masked_mean0 (mse_loss v v_backup) loss_masks
            in bind (value_loss_streams_discrete opt log_probs branched_ent_bonus names values
                       min_policy_qs loss_masks mede_rewards)
                 (\<lambda>value_losses. Inr (value_loss # value_losses)))))"

text \<open>
  \<open>assembled_value_loss\<close> is the body of \<open>sac_value_loss\<close> up to
  \<open>value_loss = torch.mean(torch.stack(value_losses))\<close>; \<open>sac_value_loss\<close> adds the test
  for a non-finite value that follows it.
\<close>

definition assembled_value_loss ::
  "sac_optimizer \<Rightarrow> action_log_probs \<Rightarrow> vec dict \<Rightarrow> tensor dict \<Rightarrow> tensor dict \<Rightarrow> bool list
     \<Rightarrow> vec \<Rightarrow> error + tfloat" where
  "assembled_value_loss opt log_probs values q1p_out q2p_out loss_masks mede_rewards =
     bind (min_policy_q_streams opt log_probs (map fst values) q1p_out q2p_out)
       (\<lambda>min_policy_qs.
     bind
       (if discrete_size (opt_action_spec opt) \<le> 0
        then value_loss_streams_continuous opt log_probs (map fst values) values min_policy_qs
               loss_masks mede_rewards
        else
          (let disc_log_probs = all_discrete_tensor log_probs;
               disc_ent_coef = map texp (lec_discrete (opt_log_ent_coef opt));
               branched_per_action_ent =
                 break_into_branches (mul_mat disc_log_probs (exp_mat disc_log_probs))
                   (discrete_branches (opt_action_spec opt))
           in bind (sequence (map (\<lambda>(i, lp).
                      bind (list_getitem disc_ent_coef (int i)) (\<lambda>c.
                        Inr (sum_dim1 (scale_mat c lp))))
                      (enumerate 0 branched_per_action_ent)))
                (\<lambda>branched_ent_bonus.
                   if branched_ent_bonus = [] then Inl RuntimeError
                   else value_loss_streams_discrete opt log_probs branched_ent_bonus
                          (map fst values) values min_policy_qs loss_masks mede_rewards)))
       stack_mean)"

definition sac_value_loss ::
  "sac_optimizer \<Rightarrow> action_log_probs \<Rightarrow> vec dict \<Rightarrow> tensor dict \<Rightarrow> tensor dict \<Rightarrow> bool list
     \<Rightarrow> vec \<Rightarrow> error + tfloat" where
  "sac_value_loss opt log_probs values q1p_out q2p_out loss_masks mede_rewards =
     bind (assembled_value_loss opt log_probs values q1p_out q2p_out loss_masks mede_rewards)
       (\<lambda>value_loss.
          if isinf value_loss \<or> isnan value_loss
          then Inl (UnityTrainerException ''Inf found'')
          else Inr value_loss)"

subsection \<open>sac_policy_loss and sac_entropy_loss\<close>

text \<open>\<open>torch.mean(torch.stack(ts), axis=0)\<close> for tensors of one shape.\<close>

definition stack_mean_tensors :: "tensor list \<Rightarrow> error + tensor" where
  "stack_mean_tensors ts =
     (case ts of
        [] \<Rightarrow> Inl RuntimeError
      | Vec _ # _ \<Rightarrow> bind (sequence (map squeeze ts)) (\<lambda>vs.
                      bind (stack_mean_dim0 vs) (\<lambda>v. Inr (Vec v)))
      | Mat m # _ \<Rightarrow> bind (sequence (map as_mat ts)) (\<lambda>ms.
                      Inr (Mat (map (\<lambda>r. map (\<lambda>c. tsum (map (\<lambda>t. t ! r ! c) ms)
                                                      / Fin (real (length ms)))
                                          [0 ..< length (m ! r)])
                                 [0 ..< length m]))))"

definition sac_policy_loss ::
  "sac_optimizer \<Rightarrow> action_log_probs \<Rightarrow> tensor dict \<Rightarrow> bool list \<Rightarrow> vec \<Rightarrow> error + tfloat" where
  "sac_policy_loss opt log_probs q1p_outs loss_masks mede_rewards =
     (let cont_ent_coef = map texp (lec_continuous (opt_log_ent_coef opt));
          disc_ent_coef = map texp (lec_discrete (opt_log_ent_coef opt))
      in bind (stack_mean_tensors (map snd q1p_outs)) (\<lambda>mean_q1.
         let batch_policy_loss = [Fin 0]
         in bind
              (if 0 < discrete_size (opt_action_spec opt)
               then
                 (let disc_log_probs = all_discrete_tensor log_probs;
                      disc_action_probs = exp_mat disc_log_probs;
                      branched_per_action_ent =
                        break_into_branches (mul_mat disc_log_probs disc_action_probs)
                          (discrete_branches (opt_action_spec opt))
                  in bind (as_mat mean_q1) (\<lambda>mean_q1.
                       let branched_q_term =
                             break_into_branches (mul_mat mean_q1 disc_action_probs)
                               (discrete_branches (opt_action_spec opt))
                       in bind (sequence (map (\<lambda>(i, (lp, qt)).
                                  bind (list_getitem disc_ent_coef (int i)) (\<lambda>c.
                                    Inr (sum_dim1 (map2 (map2 (-)) (scale_mat c lp) qt))))
                                  (enumerate 0 (zip branched_per_action_ent branched_q_term))))
                            (\<lambda>branched_policy_loss.
                               if branched_policy_loss = [] then Inl RuntimeError
                               else Inr (badd batch_policy_loss
                                           (sum_dim1 (transpose branched_policy_loss)),
                                         sum_dim1 (mul_mat disc_action_probs mean_q1)))))
               else bind (squeeze mean_q1) (\<lambda>all_mean_q1. Inr (batch_policy_loss, all_mean_q1)))
              (\<lambda>(batch_policy_loss, all_mean_q1).
                 let batch_policy_loss =
                       (if 0 < continuous_size (opt_action_spec opt)
                        then badd batch_policy_loss
                               (mean_dim1
                                  (map2 (\<lambda>row q. map (\<lambda>x. x - q) row)
                                     (mul_rows cont_ent_coef (continuous_tensor log_probs))
                                     all_mean_q1))
                        else batch_policy_loss);
                     batch_policy_loss =
                       (if mede_policy_loss opt
                        then badd batch_policy_loss (scale (- mede_strength opt) mede_rewards)
                        else batch_policy_loss)
                 in Inr (masked_mean batch_policy_loss loss_masks))))"

definition sac_entropy_loss ::
  "sac_optimizer \<Rightarrow> action_log_probs \<Rightarrow> bool list \<Rightarrow> error + tfloat" where
  "sac_entropy_loss opt log_probs loss_masks =
     (let cont_ent_coef = lec_continuous (opt_log_ent_coef opt);
          disc_ent_coef = lec_discrete (opt_log_ent_coef opt);
          entropy_loss = Fin 0
      in bind
           (if 0 < discrete_size (opt_action_spec opt)
            then
              (let disc_log_probs = all_discrete_tensor log_probs;
                   branched_per_action_ent =
                     break_into_branches (mul_mat disc_log_probs (exp_mat disc_log_probs))
                       (discrete_branches (opt_action_spec opt));
                   target_current_diff_branched =
                     map (\<lambda>(lp, te). map (\<lambda>x. x + te) (sum_dim1 lp))
                       (zip branched_per_action_ent (discrete (opt_target_entropy opt)))
               in if target_current_diff_branched = [] then Inl RuntimeError
                  else
                    (let target_current_diff = transpose target_current_diff_branched
                     in Inr (entropy_loss
                             + Fin (- 1) * masked_mean
                                 (mean_dim1 (mul_rows disc_ent_coef target_current_diff))
                                 loss_masks)))
            else Inr entropy_loss)
           (\<lambda>entropy_loss.
              if 0 < continuous_size (opt_action_spec opt)
              then
                (let cont_log_probs = continuous_tensor log_probs;
                     target_current_diff =
                       sum_dim1 (map (map (\<lambda>x. x + continuous (opt_target_entropy opt)))
                                   cont_log_probs)
                 in Inr (entropy_loss
                         + Fin (- 1) * masked_mean
                             (case cont_ent_coef of
                                [c] \<Rightarrow> scale c target_current_diff
                              | _ \<Rightarrow> map2 (*) cont_ent_coef target_current_diff)
                             loss_masks))
              else Inr entropy_loss))"

subsection \<open>_update_saliency\<close>

text \<open>
  The gradients come from autograd (external): \<open>obs_grads\<close> and \<open>action_grad\<close> are
  \<open>torch.mean(x.grad.data.abs(), dim=0)\<close> for each input and for the actions.
\<close>

fun smooth_saliency :: "tfloat \<Rightarrow> vec list \<Rightarrow> vec list \<Rightarrow> error + vec list" where
  "smooth_saliency w (grad # grads) (sal # sals) =
     (if length grad = length sal
      then bind (smooth_saliency w grads sals) (\<lambda>rest.
             Inr (map2 (\<lambda>g s. w * g + (Fin 1 - w) * s) grad sal # rest))
      else Inl AssertionError)"
| "smooth_saliency w [] sals = Inr sals"
| "smooth_saliency w grads [] = Inr []"

definition opt_update_saliency ::
  "sac_optimizer \<Rightarrow> mede_network \<Rightarrow> vec list \<Rightarrow> vec \<Rightarrow> error + sac_optimizer" where
  "opt_update_saliency opt net obs_grads action_grad =
     bind (smooth_saliency (sal_weight opt) obs_grads (sal_observations opt)) (\<lambda>sal_obs.
     bind
       (if 0 < continuous_size (opt_action_spec opt)
        then (if length action_grad = length (sal_cont_actions opt)
              then Inr (map2 (\<lambda>g s. sal_weight opt * g + (Fin 1 - sal_weight opt) * s)
                          action_grad (sal_cont_actions opt))
              else Inl AssertionError)
        else Inr (sal_cont_actions opt))
       (\<lambda>sal_act.
     bind (update_saliency net sal_obs sal_act) (\<lambda>net'.
       Inr (opt\<lparr>sal_observations := sal_obs, sal_cont_actions := sal_act,
                opt_mede_network := Some net'\<rparr>))))"

subsection \<open>update\<close>

text \<open>
  What the external collaborators give during one \<open>update\<close>: the batch columns, the
  actor's log-probabilities, the outputs of the critic, of the Q networks (at the sampled
  and at the stored actions) and of the target network, the decayed learning rate, the
  entropy coefficients after the entropy optimizer's step, the outputs of the
  discriminator's \<open>predict\<close> for its three uses, and the saliency gradients.
\<close>

record forward =
  fw_rewards :: "vec dict"
  fw_current_obs :: "mat list"
  fw_log_probs :: action_log_probs
  fw_value_estimates :: "vec dict"
  fw_q1p_out :: "tensor dict"
  fw_q2p_out :: "tensor dict"
  fw_q1_out :: "tensor dict"
  fw_q2_out :: "tensor dict"
  fw_disc_actions :: "nat list list"
  fw_target_values :: "vec dict"
  fw_masks :: "bool list"
  fw_dones :: vec
  fw_decay_lr :: tfloat
  fw_stepped_log_ent_coef :: log_ent_coef
  fw_prediction_policy :: mat
  fw_prediction_value :: mat
  fw_prediction_loss :: mat
  fw_mu :: mat
  fw_dropout :: "mat \<Rightarrow> mat"
  fw_obs_grads :: "vec list"
  fw_action_grad :: vec

definition item_or_zero :: "tfloat option \<Rightarrow> tfloat" where
  "item_or_zero x = (case x of None \<Rightarrow> Fin 0 | Some v \<Rightarrow> v)"

text \<open>
  Two stages of \<open>update\<close> have names of their own: the Q streams at the stored actions
  (condensed when there are discrete actions) and the two MEDE rewards.
\<close>

definition update_q_streams :: "sac_optimizer \<Rightarrow> forward \<Rightarrow> error + (tensor dict \<times> tensor dict)" where
  "update_q_streams opt fw =
     (if 0 < discrete_size (opt_action_spec opt)
      then bind (condense_q_streams opt (fw_q1_out fw) (fw_disc_actions fw)) (\<lambda>q1_stream.
           bind (condense_q_streams opt (fw_q2_out fw) (fw_disc_actions fw)) (\<lambda>q2_stream.
             Inr (q1_stream, q2_stream)))
      else Inr (fw_q1_out fw, fw_q2_out fw))"

definition update_mede_rewards :: "sac_optimizer \<Rightarrow> forward \<Rightarrow> error + (vec \<times> vec)" where
  "update_mede_rewards opt fw =
     (if use_mede opt
      then (case opt_mede_network opt of
              None \<Rightarrow> Inl TypeError
            | Some net \<Rightarrow>
                bind (rewards net (fw_current_obs fw) (fw_prediction_policy fw)
                        (all_discrete_tensor (fw_log_probs fw)) (fw_dropout fw))
                  (\<lambda>mede_policy_rewards.
                bind (rewards net (fw_current_obs fw) (fw_prediction_value fw)
                        (all_discrete_tensor (fw_log_probs fw)) (fw_dropout fw))
                  (\<lambda>mede_value_rewards. Inr (mede_value_rewards, mede_policy_rewards))))
      else Inr (zeros [1], zeros [1]))"

text \<open>The block \<open>if self.use_mede:\<close> that ends \<open>update\<close>.\<close>

definition update_mede ::
  "sac_optimizer \<Rightarrow> forward \<Rightarrow> tfloat dict \<Rightarrow> call list
     \<Rightarrow> error + (tfloat dict \<times> sac_optimizer \<times> call list)" where
  "update_mede opt fw update_stats calls =
     (case opt_mede_network opt of
        None \<Rightarrow> Inl TypeError
      | Some net \<Rightarrow>
          bind (loss net (fw_current_obs fw) (fw_prediction_loss fw) (fw_mu fw)
                  (all_discrete_tensor (fw_log_probs fw)) (fw_dropout fw) (fw_masks fw))
            (\<lambda>((mede_loss, base_loss, kl_loss, vail_loss, b), net).
               let calls = calls @ [OptimizerStep MedeOptimizer (fw_decay_lr fw) mede_loss];
                   opt = opt\<lparr>opt_mede_network := Some net\<rparr>
               in bind (if Fin 0 < opt_mede_saliency_dropout opt
                        then opt_update_saliency opt net (fw_obs_grads fw) (fw_action_grad fw)
                        else Inr opt)
                    (\<lambda>opt.
                       Inr (update_stats @
                              [(''Policy/MEDE Loss'', mede_loss),
                               (''Policy/MEDE Base'', base_loss),
                               (''Policy/MEDE Variational'', item_or_zero vail_loss),
                               (''Policy/MEDE KL'', item_or_zero kl_loss),
                               (''Policy/MEDE beta'', item_or_zero b)],
                            opt, calls))))"

definition update ::
  "sac_optimizer \<Rightarrow> forward \<Rightarrow> error + (tfloat dict \<times> sac_optimizer \<times> call list)" where
  "update opt fw =
     (let log_probs = fw_log_probs fw; masks = fw_masks fw
      in
      bind (update_q_streams opt fw) (\<lambda>(q1_stream, q2_stream).
      bind (update_mede_rewards opt fw) (\<lambda>(mede_value_rewards, mede_policy_rewards).
      bind (sac_q_loss opt q1_stream q2_stream (fw_target_values fw) (fw_dones fw)
              (fw_rewards fw) masks) (\<lambda>(q1_loss, q2_loss).
      bind (sac_value_loss opt log_probs (fw_value_estimates fw) (fw_q1p_out fw) (fw_q2p_out fw)
              masks mede_value_rewards) (\<lambda>value_loss.
      bind (sac_policy_loss opt log_probs (fw_q1p_out fw) masks mede_policy_rewards)
        (\<lambda>policy_loss.
      bind (sac_entropy_loss opt log_probs masks) (\<lambda>entropy_loss.
        let total_value_loss = q1_loss + q2_loss;
            policy_loss = (if shared_critic (policy opt) then policy_loss + value_loss
                           else policy_loss);
            total_value_loss = (if shared_critic (policy opt) then total_value_loss
                                else total_value_loss + value_loss);
            decay_lr = fw_decay_lr fw;
            calls = [OptimizerStep PolicyOptimizer decay_lr policy_loss,
                     OptimizerStep ValueOptimizer decay_lr total_value_loss,
                     OptimizerStep EntropyOptimizer decay_lr entropy_loss,
                     SoftUpdate (tau opt)];
            opt = opt\<lparr>opt_log_ent_coef := fw_stepped_log_ent_coef fw\<rparr>;
            disc_coef = map texp (lec_discrete (opt_log_ent_coef opt));
            cont_coef = map texp (lec_continuous (opt_log_ent_coef opt));
            update_stats =
              [(''Losses/Policy Loss'', policy_loss),
               (''Losses/Value Loss'', value_loss),
               (''Losses/Q1 Loss'', q1_loss),
               (''Losses/Q2 Loss'', q2_loss),
               (''Policy/Discrete Entropy Coeff'',
                  tsum disc_coef / Fin (real (length disc_coef))),
               (''Policy/Continuous Entropy Coeff'',
                  tsum cont_coef / Fin (real (length cont_coef))),
               (''Policy/Learning Rate'', decay_lr),
               (''Policy/Entropy Loss'', entropy_loss)]
        in if use_mede opt then update_mede opt fw update_stats calls
           else Inr (update_stats, opt, calls))))))))"

subsection \<open>The Q loss as the spec words it\<close>

text \<open>
  The done mask of a stream, the bootstrap target
  \<open>reward + (1 - done_mask * done) * gamma * target_value\<close> entry by entry, the loss
  \<open>0.5 * masked_mean(mse(a, b))\<close>, and the mean over the streams \<open>0, \<dots>, n - 1\<close>.
\<close>

definition done_mask :: "bool \<Rightarrow> tfloat" where
  "done_mask ignore = (if ignore then Fin 0 else Fin 1)"

definition q_backup :: "vec \<Rightarrow> tfloat \<Rightarrow> vec \<Rightarrow> tfloat \<Rightarrow> vec \<Rightarrow> vec" where
  "q_backup reward dmask done g target_value =
     map (\<lambda>j. reward ! j + (Fin 1 - dmask * done ! j) * g * target_value ! j)
       [0 ..< length done]"

definition half_masked_mse :: "vec \<Rightarrow> vec \<Rightarrow> bool list \<Rightarrow> tfloat" where
  "half_masked_mse a b ms = Fin (1 / 2) * masked_mean0 (mse_loss a b) ms"

definition mean_over_streams :: "(nat \<Rightarrow> tfloat) \<Rightarrow> nat \<Rightarrow> tfloat" where
  "mean_over_streams f n = tsum (map f [0 ..< n]) / Fin (real n)"

definition w1_policy :: torch_policy where
  "w1_policy = \<lparr>shared_critic = False, observation_specs = [],
     policy_action_spec = \<lparr>continuous_size = 1, discrete_branches = []\<rparr>\<rparr>"

definition w1_settings :: sac_settings where
  "w1_settings = \<lparr>hp_tau = Fin (5 / 1000), hp_init_entcoef = Fin 1, hp_mede = False,
     hp_mede_params = \<lparr>mede_use_actions = False, mede_saliency_dropout = Fin 0,
       mede_drop_actions = False, mede_centered = False, mede_mutual_information = Fin 0,
       mede_dropout = Fin 0, mede_noise = False\<rparr>,
     hp_mede_strength = Fin 0, hp_mede_for_policy_loss = False\<rparr>"

definition w1_configs :: "reward_signal_settings dict" where
  "w1_configs = [(''extrinsic'', \<lparr>gamma = Fin (99 / 100)\<rparr>), (''gail'', \<lparr>gamma = Fin (9 / 10)\<rparr>)]"

definition w1_signals :: "reward_provider dict" where
  "w1_signals = [(''extrinsic'', \<lparr>ignore_done = False\<rparr>), (''gail'', \<lparr>ignore_done = True\<rparr>)]"

subsection \<open>Condensing as the spec words it\<close>

text \<open>
  For one sample with logits \<open>row\<close> and actions \<open>acts\<close>: the logit that the action of
  branch \<open>b\<close> selects, and the average of the selected logits over the branches.
\<close>

definition selected_q :: "nat list \<Rightarrow> real list \<Rightarrow> nat list \<Rightarrow> nat \<Rightarrow> real" where
  "selected_q branches row acts b = row ! (sum_list (take b branches) + acts ! b)"

definition condensed_q :: "nat list \<Rightarrow> real list \<Rightarrow> nat list \<Rightarrow> real" where
  "condensed_q branches row acts =
     sum_list (map (selected_q branches row acts) [0 ..< length branches])
       / real (length branches)"

definition w3_policy :: torch_policy where
  "w3_policy = \<lparr>shared_critic = False, observation_specs = [],
     policy_action_spec = \<lparr>continuous_size = 0, discrete_branches = [3, 2]\<rparr>\<rparr>"

subsection \<open>A constructed optimizer and one update's inputs\<close>

definition w1_opt :: sac_optimizer where
  "w1_opt = \<lparr>policy = w1_policy, tau = Fin (5 / 1000), init_entcoef = Fin 1,
     discrete_target_entropy_scale = Fin (2 / 10), continuous_target_entropy_scale = Fin 1,
     stream_names = [''extrinsic'', ''gail''], gammas = [Fin (99 / 100), Fin (9 / 10)],
     use_dones_in_backup = [(''extrinsic'', 1), (''gail'', 0)],
     opt_action_spec = \<lparr>continuous_size = 1, discrete_branches = []\<rparr>,
     opt_log_ent_coef = \<lparr>lec_discrete = [], lec_continuous = [Fin 0]\<rparr>,
     opt_target_entropy = \<lparr>discrete = [], continuous = Fin (- 1)\<rparr>,
     use_mede = False, opt_mede_network = None, opt_mede_saliency_dropout = Fin 0,
     mede_strength = Fin 0, mede_policy_loss = False, sal_observations = [],
     sal_cont_actions = [Fin 0], sal_weight = Fin (1 / 100)\<rparr>"

definition w6_fw :: forward where
  "w6_fw = \<lparr>fw_rewards = [(''extrinsic'', [Fin 1]), (''gail'', [Fin 2])],
     fw_current_obs = [],
     fw_log_probs = \<lparr>continuous_tensor = [[Fin 0]], all_discrete_tensor = [[]]\<rparr>,
     fw_value_estimates = [(''extrinsic'', [PInf]), (''gail'', [Fin 0])],
     fw_q1p_out = [(''extrinsic'', Vec [Fin 0]), (''gail'', Vec [Fin 0])],
     fw_q2p_out = [(''extrinsic'', Vec [Fin 0]), (''gail'', Vec [Fin 0])],
     fw_q1_out = [(''extrinsic'', Vec [Fin 0]), (''gail'', Vec [Fin 0])],
     fw_q2_out = [(''extrinsic'', Vec [Fin 1]), (''gail'', Vec [Fin 1])],
     fw_disc_actions = [[]],
     fw_target_values = [(''extrinsic'', [Fin 10]), (''gail'', [Fin 10])],
     fw_masks = [True], fw_dones = [Fin 1], fw_decay_lr = Fin (3 / 10000),
     fw_stepped_log_ent_coef = \<lparr>lec_discrete = [], lec_continuous = [Fin 0]\<rparr>,
     fw_prediction_policy = [], fw_prediction_value = [], fw_prediction_loss = [],
     fw_mu = [], fw_dropout = id, fw_obs_grads = [], fw_action_grad = [Fin 0]\<rparr>"

subsection \<open>Constructed optimizers\<close>

text \<open>
  \<open>constructed opt\<close>: \<open>opt\<close> is an optimizer that \<open>__init__\<close> built, after any number of
  completed updates. \<open>w7_fw\<close> is an update's input with finite losses, \<open>w7_calls\<close> and
  \<open>w7_stats\<close> what that update does and returns.
\<close>

definition w7_fw :: forward where
  "w7_fw = w6_fw\<lparr>fw_value_estimates := [(''extrinsic'', [Fin 2]), (''gail'', [Fin 0])]\<rparr>"

inductive constructed :: "sac_optimizer \<Rightarrow> bool" where
  built: "sac_init pol cfgs rsigs hp h = Inr (opt, cs) \<Longrightarrow> constructed opt"
| updated: "constructed opt \<Longrightarrow> update opt fw = Inr (stats, opt', calls) \<Longrightarrow> constructed opt'"

definition w7_calls :: "call list" where
  "w7_calls = [OptimizerStep PolicyOptimizer (Fin (3 / 10000)) (Fin 0),
               OptimizerStep ValueOptimizer (Fin (3 / 10000)) (Fin (61 / 2 + 25 + 1)),
               OptimizerStep EntropyOptimizer (Fin (3 / 10000)) (Fin 0),
               SoftUpdate (Fin (5 / 1000))]"

definition w7_stats :: "tfloat dict" where
  "w7_stats = [(''Losses/Policy Loss'', Fin 0), (''Losses/Value Loss'', Fin 1),
     (''Losses/Q1 Loss'', Fin (61 / 2)), (''Losses/Q2 Loss'', Fin 25),
     (''Policy/Discrete Entropy Coeff'', NaN), (''Policy/Continuous Entropy Coeff'', Fin 1),
     (''Policy/Learning Rate'', Fin (3 / 10000)), (''Policy/Entropy Loss'', Fin 0)]"

subsection \<open>Repeated soft updates\<close>

text \<open>
  \<open>target_after n source target t\<close> is the target after \<open>n\<close> soft updates from a fixed
  source; \<open>is_soft_update\<close> recognises the call.
\<close>

definition target_after :: "nat \<Rightarrow> vec \<Rightarrow> vec \<Rightarrow> tfloat \<Rightarrow> vec" where
  "target_after n source target t = ((\<lambda>tg. soft_update source tg t) ^^ n) target"

fun is_soft_update :: "call \<Rightarrow> bool" where
  "is_soft_update (SoftUpdate t) = True"
| "is_soft_update _ = False"

definition w4_policy :: torch_policy where
  "w4_policy = \<lparr>shared_critic = False, observation_specs = [],
     policy_action_spec = \<lparr>continuous_size = 2, discrete_branches = [3, 2]\<rparr>\<rparr>"

subsection \<open>A hybrid action space\<close>

text \<open>
  An optimizer for one discrete branch of two actions and one continuous action, as
  \<open>__init__\<close> builds it, and the inputs of one value loss: one sample, uniform discrete
  probabilities, continuous log-probability \<open>-1\<close>.
\<close>

definition c2_policy :: torch_policy where
  "c2_policy = \<lparr>shared_critic = False, observation_specs = [],
     policy_action_spec = \<lparr>continuous_size = 1, discrete_branches = [2]\<rparr>\<rparr>"

definition c2_configs :: "reward_signal_settings dict" where
  "c2_configs = [(''extrinsic'', \<lparr>gamma = Fin (99 / 100)\<rparr>)]"

definition c2_signals :: "reward_provider dict" where
  "c2_signals = [(''extrinsic'', \<lparr>ignore_done = False\<rparr>)]"

definition c2_opt :: sac_optimizer where
  "c2_opt = \<lparr>policy = c2_policy, tau = Fin (5 / 1000), init_entcoef = Fin 1,
     discrete_target_entropy_scale = Fin (2 / 10), continuous_target_entropy_scale = Fin 1,
     stream_names = [''extrinsic''], gammas = [Fin (99 / 100)],
     use_dones_in_backup = [(''extrinsic'', 1)],
     opt_action_spec = \<lparr>continuous_size = 1, discrete_branches = [2]\<rparr>,
     opt_log_ent_coef = \<lparr>lec_discrete = [Fin 0], lec_continuous = [Fin 0]\<rparr>,
     opt_target_entropy = \<lparr>discrete = [Fin (2 / 10 * ln 2)], continuous = Fin (- 1)\<rparr>,
     use_mede = False, opt_mede_network = None, opt_mede_saliency_dropout = Fin 0,
     mede_strength = Fin 0, mede_policy_loss = False, sal_observations = [],
     sal_cont_actions = [Fin 0], sal_weight = Fin (1 / 100)\<rparr>"

definition c2_log_probs :: action_log_probs where
  "c2_log_probs = \<lparr>continuous_tensor = [[Fin (- 1)]],
     all_discrete_tensor = [[Fin (ln (1 / 2)), Fin (ln (1 / 2))]]\<rparr>"

definition c2_q :: "tensor dict" where
  "c2_q = [(''extrinsic'', Mat [[Fin (ln (1 / 2)), Fin (ln (1 / 2))]])]"


section \<open>Properties\<close>

subsection \<open>Arithmetic on finite entries\<close>

lemma Fin_plus [simp]: "Fin a + Fin b = Fin (a + b)"
  by simp

lemma Fin_minus [simp]: "Fin a - Fin b = Fin (a - b)"
  by (simp add: minus_tfloat_def)

lemma Fin_times [simp]: "Fin a * Fin b = Fin (a * b)"
  by simp

lemma Fin_divide [simp]: "b \<noteq> 0 \<Longrightarrow> Fin a / Fin b = Fin (a / b)"
  by simp

lemma tmax2_Fin [simp]: "tmax2 (Fin a) (Fin b) = Fin (max a b)"
  by (simp add: tmax2_def max_def)

lemma tmin2_Fin [simp]: "tmin2 (Fin a) (Fin b) = Fin (min a b)"
  by (simp add: tmin2_def min_def)

subsection \<open>The adaptive KL weight\<close>

lemma mede_init_beta:
  "mede_init specs aspec params hidden_units = Inr st \<Longrightarrow> mede_noise params
     \<Longrightarrow> beta st = Some (Fin 0)"
  by (auto simp: mede_init_def bind_def Let_def split: list.splits sum.splits)

lemma loss_beta:
  assumes "loss st obs_input prediction mu adt dropout masks
             = Inr ((total_loss, base_loss, Some kl, vail_loss, b'), st')"
  shows "\<exists>b. beta st = Some b \<and> b' = beta st'
           \<and> beta st' = Some (tmax2 (b + alpha * (kl - mutual_information st)) (Fin 0))"
  using assms
  by (auto simp: loss_def bind_def Let_def split: sum.splits option.splits)

lemma beta_rule_nonneg: "0 \<le> foldl (beta_rule mi) 0 kls"
  by (induction kls rule: rev_induct) (simp_all add: beta_rule_def)

text \<open>
  C8. In noise mode \<open>self._beta\<close> starts at 0 and every call of \<open>loss\<close> replaces it by
  \<open>max(0, beta + 0.0005 * (KL - target_budget))\<close>; so after any sequence of calls, whatever
  the (real) KL values were, it is the fold of that rule over them and it is not negative.
\<close>

theorem beta_nonneg:
  "beta_after mi kls x \<Longrightarrow>
     x = Some (Fin (foldl (beta_rule mi) 0 kls)) \<and> 0 \<le> foldl (beta_rule mi) 0 kls"
proof (induction rule: beta_after.induct)
  case (init specs aspec params hidden_units st)
  then show ?case by (simp add: mede_init_beta)
next
  case (step kls st obs_input prediction mu adt dropout masks total_loss
      base_loss kl vail_loss b' st')
  from step.IH obtain b where b: "beta st = Some (Fin b)" "b = foldl (beta_rule mi) 0 kls"
    by blast
  from loss_beta[OF step.hyps(3)] b(1) step.hyps(2)
  have "beta st' = Some (Fin (beta_rule mi b kl))"
    by (auto simp: alpha_def beta_rule_def max.commute)
  then have "beta st' = Some (Fin (foldl (beta_rule mi) 0 (kls @ [kl])))"
    by (simp add: b(2))
  then show ?case by (simp add: beta_rule_nonneg del: foldl_append)
qed

lemma w_init: "\<exists>st. mede_init w_specs w_aspec w_params 0 = Inr st"
  by (simp add: mede_init_def w_specs_def bind_def list_getitem_def)

theorem beta_nonneg_witness:
  "\<exists>st0 st1 out. mede_init w_specs w_aspec w_params 0 = Inr st0
     \<and> loss st0 [[[Fin 1, Fin 0]]] [[Fin (1/2), Fin (1/2)]] [[]] [] id [True] = Inr (out, st1)
     \<and> beta_after (- 1) [0] (beta st1)
     \<and> beta st1 = Some (Fin (5 / 10000))"
proof -
  obtain st0 where st0: "mede_init w_specs w_aspec w_params 0 = Inr st0"
    using w_init by blast
  have mi: "mutual_information st0 = Fin (- 1)" and zs: "z_sigma st0 = Some []"
    and di: "diverse_index st0 = 0" and ua: "\<not> use_actions st0" and cr: "\<not> centered_reward st0"
    using st0
    by (auto simp: mede_init_def w_specs_def w_params_def bind_def list_getitem_def)
  have b0: "beta st0 = Some (Fin 0)"
    using st0 by (simp add: mede_init_beta w_params_def)
  define l where "l = loss st0 [[[Fin 1, Fin 0]]] [[Fin (1/2), Fin (1/2)]] [[]] [] id [True]"
  have r: "rewards st0 [[[Fin 1, Fin 0]]] [[Fin (1/2), Fin (1/2)]] [] id
             = Inr [Fin (ln (1 / 2 + 1 / 10 ^ 7))]"
    by (simp add: rewards_def di ua cr bind_def list_getitem_def sum_dim1_def mul_mat_def
        tsum_def EPSILON_def)
  have kl: "masked_mean (kl_rows [] [[]]) [True] = Fin 0"
    by (simp add: masked_mean_def kl_rows_def tsum_def mask_count_def)
  obtain tl bl vl where l: "l = Inr ((tl, bl, Some (Fin 0), vl, Some (Fin (5 / 10000))),
       st0\<lparr>beta := Some (Fin (5 / 10000))\<rparr>)"
    unfolding l_def loss_def
    by (simp add: r kl zs b0 mi bind_def alpha_def Let_def)
  have b: "beta_after (- 1) ([] @ [0]) (beta (st0\<lparr>beta := Some (Fin (5 / 10000))\<rparr>))"
    by (rule beta_after.step[OF beta_after.init[OF st0] mi l[unfolded l_def]])
       (simp add: w_params_def)
  from beta_nonneg[OF b] b st0 l show ?thesis
    unfolding l_def by auto
qed

subsection \<open>The reward of the discriminator\<close>

lemma foldl_plus_Fin: "foldl (+) (Fin a) (map Fin xs) = Fin (a + sum_list xs)"
  by (induction xs arbitrary: a) (simp_all add: add.assoc)

lemma tsum_Fin [simp]: "tsum (map Fin xs) = Fin (sum_list xs)"
  by (simp add: tsum_def foldl_plus_Fin)

lemma uniform_one_hot:
  "k < 4 \<Longrightarrow> tsum (map2 (*) (replicate 4 (Fin (1 / 4))) (one_hot k 4)) = Fin (1 / 4)"
proof -
  assume "k < 4"
  then consider "k = 0" | "k = 1" | "k = 2" | "k = 3" by linarith
  then show ?thesis
    by cases (simp_all add: one_hot_def tsum_def numeral_eq_Suc upt_rec)
qed

lemma ln_shift:
  fixes a e :: real
  assumes "0 < a" "0 \<le> e"
  shows "0 \<le> ln (a + e) - ln a" and "ln (a + e) - ln a \<le> e / a"
proof -
  have "ln ((a + e) / a) = ln (a + e) - ln a"
    using assms by (simp add: ln_div)
  moreover have "(a + e) / a = 1 + e / a"
    using assms by (simp add: field_simps)
  ultimately have e: "ln (a + e) - ln a = ln (1 + e / a)" by simp
  show "0 \<le> ln (a + e) - ln a"
    unfolding e using assms by (intro ln_ge_zero) simp
  show "ln (a + e) - ln a \<le> e / a"
    unfolding e using assms by (intro ln_add_one_self_le_self) simp
qed

lemma ln_near: "\<bar>ln (1 / 4 + 1 / 10 ^ 7) - ln (1 / 4 :: real)\<bar> < 1 / 10 ^ 6"
  using ln_shift[of "1 / 4" "1 / 10 ^ 7"] by simp

lemma rewards_general:
  assumes "\<not> (use_actions st \<and> 0 < length (disc_sizes st))"
    and "list_getitem obs_input (diverse_index st) = Inr truth"
    and "0 < diverse_size st"
  shows "rewards st obs_input prediction adt dropout
           = Inr (map2 (reward_row st) prediction truth)"
  using assms
  by (auto simp: rewards_def bind_def sum_dim1_def mul_mat_def reward_row_def Let_def
      map_zip_map map_zip_map2 zip_map1 zip_map2 split_def comp_def)


lemma reward_row_uniform:
  assumes "diverse_size st = 4" "k < 4"
  shows "reward_row st (replicate 4 (Fin (1 / 4))) (one_hot k 4)
           = Fin (if centered_reward st then ln (1 / 4 + 1 / 10 ^ 7) - ln (1 / 4)
                  else ln (1 / 4 + 1 / 10 ^ 7))"
  using assms
  by (simp add: reward_row_def uniform_one_hot EPSILON_def minus_tfloat_def Let_def)

text \<open>
  C9. Without discrete actions in the discriminator, the reward of every sample is
  \<open>log(sum(prediction * truth) + \<epsilon>)\<close> with \<open>\<epsilon> = 1e-7\<close>, minus \<open>log(1 / diversity_size)\<close>
  when centering is enabled. With \<open>diversity_size = 4\<close>, the uniform prediction and one-hot
  truths, the centered reward is within \<open>1e-6\<close> of 0 and the uncentered reward is
  \<open>ln(0.25 + \<epsilon>)\<close>.
\<close>

theorem rewards_no_discrete_path:
  assumes "\<not> (use_actions st \<and> 0 < length (disc_sizes st))"
    and "list_getitem obs_input (diverse_index st) = Inr truth"
    and "0 < diverse_size st"
  shows "rewards st obs_input prediction adt dropout
           = Inr (map2 (reward_row st) prediction truth)
         \<and> (diverse_size st = 4 \<and> prediction = replicate (length ks) (replicate 4 (Fin (1 / 4)))
              \<and> truth = map (\<lambda>k. one_hot k 4) ks \<and> (\<forall>k \<in> set ks. k < 4)
            \<longrightarrow> (\<exists>r. rewards st obs_input prediction adt dropout
                         = Inr (replicate (length ks) (Fin r))
                     \<and> (centered_reward st \<longrightarrow> \<bar>r\<bar> < 1 / 10 ^ 6)
                     \<and> (\<not> centered_reward st \<longrightarrow> r = ln (1 / 4 + 1 / 10 ^ 7))))"
proof -
  have g: "rewards st obs_input prediction adt dropout
             = Inr (map2 (reward_row st) prediction truth)"
    by (rule rewards_general[OF assms])
  have u: "map2 (reward_row st) (replicate (length ks) (replicate 4 (Fin (1 / 4))))
             (map (\<lambda>k. one_hot k 4) ks) = replicate (length ks) (Fin r)"
    if "diverse_size st = 4" "\<forall>k \<in> set ks. k < 4"
      and "r = (if centered_reward st then ln (1 / 4 + 1 / 10 ^ 7) - ln (1 / 4)
                else ln (1 / 4 + 1 / 10 ^ 7))" for r
    using that(2)
    by (induction ks) (simp_all add: reward_row_uniform[OF that(1)] that(3))
  show ?thesis
  proof (intro conjI impI)
    show "rewards st obs_input prediction adt dropout
            = Inr (map2 (reward_row st) prediction truth)"
      by (rule g)
  next
    assume h: "diverse_size st = 4 \<and> prediction = replicate (length ks) (replicate 4 (Fin (1 / 4)))
              \<and> truth = map (\<lambda>k. one_hot k 4) ks \<and> (\<forall>k \<in> set ks. k < 4)"
    define r where "r = (if centered_reward st then ln (1 / 4 + 1 / 10 ^ 7) - ln (1 / 4)
                else ln (1 / 4 + 1 / 10 ^ 7 :: real))"
    have "map2 (reward_row st) prediction truth = replicate (length ks) (Fin r)"
      using h u[OF _ _ r_def] by blast
    then have "rewards st obs_input prediction adt dropout
                 = Inr (replicate (length ks) (Fin r))"
      using g by simp
    moreover have "centered_reward st \<longrightarrow> \<bar>r\<bar> < 1 / 10 ^ 6"
      using ln_near by (simp add: r_def)
    moreover have "\<not> centered_reward st \<longrightarrow> r = ln (1 / 4 + 1 / 10 ^ 7)"
      by (simp add: r_def)
    ultimately show "\<exists>r. rewards st obs_input prediction adt dropout
                         = Inr (replicate (length ks) (Fin r))
                     \<and> (centered_reward st \<longrightarrow> \<bar>r\<bar> < 1 / 10 ^ 6)
                     \<and> (\<not> centered_reward st \<longrightarrow> r = ln (1 / 4 + 1 / 10 ^ 7))"
      by blast
  qed
qed

theorem rewards_no_discrete_path_witness:
  "list_getitem [[one_hot 2 4]] (diverse_index w9_net) = Inr [one_hot 2 4]
   \<and> (\<exists>r. rewards w9_net [[one_hot 2 4]] [replicate 4 (Fin (1 / 4))] [] id = Inr [Fin r]
          \<and> \<bar>r\<bar> < 1 / 10 ^ 6)"
proof -
  have a: "\<not> (use_actions w9_net \<and> 0 < length (disc_sizes w9_net))"
    and b: "list_getitem [[one_hot 2 4]] (diverse_index w9_net) = Inr [one_hot 2 4]"
    and c: "0 < diverse_size w9_net" and d: "diverse_size w9_net = 4"
    and e: "centered_reward w9_net"
    by (simp_all add: w9_net_def list_getitem_def)
  have f: "diverse_size w9_net = 4
      \<and> [replicate 4 (Fin (1 / 4))] = replicate (length [2::nat]) (replicate 4 (Fin (1 / 4)))
      \<and> [one_hot 2 4] = map (\<lambda>k. one_hot k 4) [2::nat] \<and> (\<forall>k \<in> set [2::nat]. k < 4)"
    by (simp add: d)
  from rewards_no_discrete_path[OF a b c, of "[replicate 4 (Fin (1 / 4))]" "[]" id "[2]",
      THEN conjunct2, THEN mp, OF f] e
  have "\<exists>r. rewards w9_net [[one_hot 2 4]] [replicate 4 (Fin (1 / 4))] [] id = Inr [Fin r]
          \<and> \<bar>r\<bar> < 1 / 10 ^ 6"
    by simp
  with b show ?thesis by blast
qed

subsection \<open>Saliency drop rates\<close>

lemma foldl_tmin2_Fin: "foldl tmin2 (Fin x) (map Fin xs) = Fin (Min (set (x # xs)))"
proof (induction xs arbitrary: x)
  case Nil
  then show ?case by simp
next
  case (Cons y ys)
  have "Min (set (min x y # ys)) = Min (set (x # y # ys))"
    by (cases "ys = []") (simp_all add: min.assoc)
  with Cons show ?case by simp
qed

lemma foldl_tmax2_Fin: "foldl tmax2 (Fin x) (map Fin xs) = Fin (Max (set (x # xs)))"
proof (induction xs arbitrary: x)
  case Nil
  then show ?case by simp
next
  case (Cons y ys)
  have "Max (set (max x y # ys)) = Max (set (x # y # ys))"
    by (cases "ys = []") (simp_all add: max.assoc)
  with Cons show ?case by simp
qed

lemma torch_min_Fin: "xs \<noteq> [] \<Longrightarrow> torch_min (map Fin xs) = Inr (Fin (Min (set xs)))"
  by (cases xs) (simp_all add: foldl_tmin2_Fin)

lemma torch_max_Fin: "xs \<noteq> [] \<Longrightarrow> torch_max (map Fin xs) = Inr (Fin (Max (set xs)))"
  by (cases xs) (simp_all add: foldl_tmax2_Fin)

lemma Max_shift:
  fixes xs :: "real list"
  assumes "xs \<noteq> []"
  shows "Max (set (map (\<lambda>x. x - c) xs)) = Max (set xs) - c"
proof -
  have "mono (\<lambda>x::real. x - c)" by (simp add: mono_def)
  from mono_Max_commute[OF this, of "set xs"] assms
  show ?thesis by simp
qed

lemma saliency_drop_Fin:
  assumes "xs \<noteq> []" "Min (set xs) \<noteq> Max (set xs)"
  shows "saliency_drop (Fin m) (map Fin xs) = Inr (map (\<lambda>x. Fin (drop_rate m xs x)) xs)"
proof -
  have a: "map (\<lambda>x. x - Fin (Min (set xs))) (map Fin xs)
             = map Fin (map (\<lambda>x. x - Min (set xs)) xs)"
    by simp
  have b: "torch_max (map Fin (map (\<lambda>x. x - Min (set xs)) xs))
             = Inr (Fin (Max (set xs) - Min (set xs)))"
    using assms(1) torch_max_Fin[of "map (\<lambda>x. x - Min (set xs)) xs"] Max_shift[OF assms(1)]
    by simp
  show ?thesis
    unfolding saliency_drop_def
    using assms(2)
    by (simp add: torch_min_Fin[OF assms(1)] bind_def a b Let_def del: map_map)
       (simp add: drop_rate_def comp_def)
qed

lemma distinct_Min_Max:
  fixes xs :: "real list"
  assumes "distinct xs" "2 \<le> length xs"
  shows "xs \<noteq> []" "Min (set xs) \<noteq> Max (set xs)" "torch_any (map Fin xs)"
proof -
  from assms obtain a b ys where xs: "xs = a # b # ys"
    by (cases xs; cases "tl xs") auto
  with assms have ab: "a \<noteq> b" by auto
  show "xs \<noteq> []" using xs by simp
  have "a \<in> set xs" "b \<in> set xs" using xs by simp_all
  then have "Min (set xs) \<le> a" "Min (set xs) \<le> b" "a \<le> Max (set xs)" "b \<le> Max (set xs)"
    by simp_all
  with ab show "Min (set xs) \<noteq> Max (set xs)"
    by linarith
  from ab have "a \<noteq> 0 \<or> b \<noteq> 0" by auto
  then show "torch_any (map Fin xs)"
    by (auto simp: torch_any_def xs list_ex_iff)
qed

lemma drop_rate_ends:
  assumes "Min (set xs) \<noteq> Max (set xs)"
  shows "drop_rate m xs (Min (set xs)) = m" "drop_rate m xs (Max (set xs)) = 0"
  using assms by (simp_all add: drop_rate_def)

lemma loop_keeps:
  "update_saliency_loop st i sals = Inr st' \<Longrightarrow>
     max_saliency_dropout st' = max_saliency_dropout st
     \<and> cont_actions_sal_drop st' = cont_actions_sal_drop st
     \<and> length (observations_sal_drop st') = length (observations_sal_drop st)
     \<and> (\<forall>k < i. observations_sal_drop st' ! k = observations_sal_drop st ! k)"
proof (induction st i sals rule: update_saliency_loop.induct)
  case (1 st i)
  then show ?case by simp
next
  case (2 st i sal rest)
  then show ?case
    by (auto simp: bind_def split: if_splits sum.splits)
qed

lemma loop_entry:
  "update_saliency_loop st i sals = Inr st' \<Longrightarrow> k < length sals \<Longrightarrow> torch_any (sals ! k)
     \<Longrightarrow> saliency_drop (max_saliency_dropout st) (sals ! k) = Inr d
     \<Longrightarrow> i + k < length (observations_sal_drop st') \<and> observations_sal_drop st' ! (i + k) = d"
proof (induction st i sals arbitrary: k rule: update_saliency_loop.induct)
  case (1 st i)
  then show ?case by simp
next
  case (2 st i sal rest)
  show ?case
  proof (cases k)
    case 0
    with "2.prems" obtain st1 where
      st1: "st1 = st\<lparr>observations_sal_drop := (observations_sal_drop st)[i := d]\<rparr>"
      and i: "i < length (observations_sal_drop st)"
      and r: "update_saliency_loop st1 (Suc i) rest = Inr st'"
      by (auto simp: bind_def split: if_splits sum.splits)
    from loop_keeps[OF r] i st1 0 show ?thesis by simp
  next
    case (Suc k')
    show ?thesis
    proof (cases "torch_any sal")
      case True
      with "2.prems"(1) obtain d0 where
        d0: "saliency_drop (max_saliency_dropout st) sal = Inr d0"
        and i: "i < length (observations_sal_drop st)"
        and r: "update_saliency_loop
                  (st\<lparr>observations_sal_drop := (observations_sal_drop st)[i := d0]\<rparr>)
                  (Suc i) rest = Inr st'"
        by (auto simp: bind_def split: if_splits sum.splits)
      from "2.IH"(1)[OF True i r, of k'] "2.prems" Suc
      show ?thesis by simp
    next
      case False
      with "2.prems"(1) have r: "update_saliency_loop st (Suc i) rest = Inr st'" by simp
      from "2.IH"(2)[OF False r, of k'] "2.prems" Suc
      show ?thesis by simp
    qed
  qed
qed

text \<open>
  C5 (as amended). For a saliency tensor with at least two channels and distinct values,
  and a finite maximum dropout strength \<open>m\<close>, \<open>update_saliency\<close> stores drop rates where
  the channel of minimum saliency has rate \<open>m\<close> and the channel of maximum saliency has
  rate 0, for the continuous actions and for every kept observation: the code computes
  \<open>1 - (sal - min) / max(sal - min)\<close>, so channels of lower saliency are dropped more.
\<close>

theorem saliency_drop_rates:
  assumes u: "update_saliency st sal_obs sal_act = Inr st'"
    and m: "max_saliency_dropout st = Fin m"
    and xs: "distinct xs" "2 \<le> length xs"
    and i: "i < length xs" "xs ! i = Min (set xs)"
    and j: "j < length xs" "xs ! j = Max (set xs)"
  shows "(sal_act = map Fin xs \<longrightarrow>
            cont_actions_sal_drop st' ! i = Fin m \<and> cont_actions_sal_drop st' ! j = Fin 0)
       \<and> (\<forall>k. k < length (kept_observations st sal_obs)
               \<and> kept_observations st sal_obs ! k = map Fin xs \<longrightarrow>
            observations_sal_drop st' ! k ! i = Fin m
            \<and> observations_sal_drop st' ! k ! j = Fin 0)"
proof -
  note ne = distinct_Min_Max[OF xs]
  have d: "saliency_drop (Fin m) (map Fin xs) = Inr (map (\<lambda>x. Fin (drop_rate m xs x)) xs)"
    by (rule saliency_drop_Fin[OF ne(1,2)])
  have di: "map (\<lambda>x. Fin (drop_rate m xs x)) xs ! i = Fin m"
    and dj: "map (\<lambda>x. Fin (drop_rate m xs x)) xs ! j = Fin 0"
    using i j drop_rate_ends[OF ne(2)] by simp_all
  from u obtain st1 where
    l: "update_saliency_loop st 0 (kept_observations st sal_obs) = Inr st1"
    and c: "(if torch_any sal_act
             then bind (saliency_drop (max_saliency_dropout st1) sal_act)
                    (\<lambda>drop. Inr (st1\<lparr>cont_actions_sal_drop := drop\<rparr>))
             else Inr st1) = Inr st'"
    by (auto simp: update_saliency_def kept_observations_def bind_def Let_def split: sum.splits)
  from loop_keeps[OF l] m have m1: "max_saliency_dropout st1 = Fin m" by simp
  have o: "observations_sal_drop st' = observations_sal_drop st1"
    using c by (auto simp: bind_def split: if_splits sum.splits)
  show ?thesis
  proof (intro conjI impI allI)
    assume "sal_act = map Fin xs"
    with c ne(3) d m1 have "cont_actions_sal_drop st' = map (\<lambda>x. Fin (drop_rate m xs x)) xs"
      by (auto simp: bind_def)
    with di dj show "cont_actions_sal_drop st' ! i = Fin m" "cont_actions_sal_drop st' ! j = Fin 0"
      by simp_all
  next
    fix k
    assume k: "k < length (kept_observations st sal_obs)
               \<and> kept_observations st sal_obs ! k = map Fin xs"
    with loop_entry[OF l, of k] ne(3) d m
    have "observations_sal_drop st1 ! k = map (\<lambda>x. Fin (drop_rate m xs x)) xs"
      by simp
    with di dj o show "observations_sal_drop st' ! k ! i = Fin m"
      "observations_sal_drop st' ! k ! j = Fin 0"
      by simp_all
  qed
qed

lemma c5_run:
  "update_saliency c5_net [[Fin 1, Fin 2], [Fin 0, Fin 1]] [Fin 1, Fin 2]
     = Inr (c5_net\<lparr>observations_sal_drop := [[Fin (1 / 2), Fin 0]],
                    cont_actions_sal_drop := [Fin (1 / 2), Fin 0]\<rparr>)"
  by (simp add: update_saliency_def c5_net_def bind_def torch_any_def saliency_drop_def
      minus_tfloat_def Let_def)

text \<open>
  The claim as stated (minimum saliency: rate 0, maximum saliency: the configured maximum)
  fails on the saliencies \<open>[1, 2]\<close> with maximum \<open>0.5\<close>: the stored rates are
  \<open>[0.5, 0]\<close>.
\<close>

theorem saliency_drop_rates_counterexample:
  "update_saliency c5_net [[Fin 1, Fin 2], [Fin 0, Fin 1]] [Fin 1, Fin 2]
     = Inr (c5_net\<lparr>observations_sal_drop := [[Fin (1 / 2), Fin 0]],
                    cont_actions_sal_drop := [Fin (1 / 2), Fin 0]\<rparr>)
   \<and> Min (set [1, 2 :: real]) = 1 \<and> Max (set [1, 2 :: real]) = 2
   \<and> Fin (1 / 2) \<noteq> Fin 0"
  using c5_run by simp

theorem saliency_drop_rates_witness:
  "update_saliency c5_net [[Fin 1, Fin 2], [Fin 0, Fin 1]] (map Fin [1, 2])
     = Inr (c5_net\<lparr>observations_sal_drop := [[Fin (1 / 2), Fin 0]],
                    cont_actions_sal_drop := [Fin (1 / 2), Fin 0]\<rparr>)
   \<and> max_saliency_dropout c5_net = Fin (1 / 2)
   \<and> distinct [1, 2 :: real] \<and> 2 \<le> length [1, 2 :: real]
   \<and> [1, 2 :: real] ! 0 = Min (set [1, 2]) \<and> [1, 2 :: real] ! 1 = Max (set [1, 2])
   \<and> [Fin (1 / 2), Fin 0] ! 0 = Fin (1 / 2) \<and> [Fin (1 / 2), Fin 0] ! 1 = Fin 0"
proof -
  have u: "update_saliency c5_net [[Fin 1, Fin 2], [Fin 0, Fin 1]] (map Fin [1, 2])
     = Inr (c5_net\<lparr>observations_sal_drop := [[Fin (1 / 2), Fin 0]],
                    cont_actions_sal_drop := [Fin (1 / 2), Fin 0]\<rparr>)"
    using c5_run by simp
  have m: "max_saliency_dropout c5_net = Fin (1 / 2)"
    by (simp add: c5_net_def)
  have xs: "distinct [1, 2 :: real]" "2 \<le> length [1, 2 :: real]"
    "0 < length [1, 2 :: real]" "[1, 2 :: real] ! 0 = Min (set [1, 2])"
    "1 < length [1, 2 :: real]" "[1, 2 :: real] ! 1 = Max (set [1, 2])"
    by simp_all
  from saliency_drop_rates[OF u m xs] u m xs show ?thesis
    by simp
qed

subsection \<open>The Q loss\<close>

lemma bind_Inr [simp]: "bind (Inr x) f = f x"
  by (simp add: bind_def)

lemma bind_Inl [simp]: "bind (Inl e) f = Inl e"
  by (simp add: bind_def)

lemma getitem_Some: "map_of d k = Some v \<Longrightarrow> getitem d k = Inr v"
  by (simp add: getitem_def)

lemma list_getitem_nat: "i < length xs \<Longrightarrow> list_getitem xs (int i) = Inr (xs ! i)"
  by (simp add: list_getitem_def)

lemma sequence_map_Inr: "sequence (map (\<lambda>x. Inr (f x)) xs) = Inr (map f xs)"
  by (induction xs) simp_all

lemma q_backup_code:
  assumes "length reward = length done" "length target_value = length done"
  shows "map2 (+) reward
           (map2 (*) (map (\<lambda>d. (Fin 1 - Fin (real_of_int (if ig then 0 else 1)) * d) * g) done)
              target_value)
         = q_backup reward (done_mask ig) done g target_value"
  using assms
  by (intro nth_equalityI) (simp_all add: q_backup_def done_mask_def)

lemma sac_init_fields:
  assumes "sac_init pol cfgs rsigs hp h = Inr (opt, calls)" "distinct (map fst rsigs)"
  shows "gammas opt = map (\<lambda>(k, v). gamma v) cfgs"
    and "use_dones_in_backup opt
           = map (\<lambda>(name, rs). (name, if ignore_done rs then 0 else 1)) rsigs"
proof -
  have g: "getitem rsigs name = Inr rs" if "(name, rs) \<in> set rsigs" for name rs
    using that assms(2) by (simp add: getitem_def)
  have s: "sequence (map (\<lambda>name. bind (getitem rsigs name) (\<lambda>rs.
                   Inr (name, if ignore_done rs then 0 else (1::int)))) (map fst xs))
           = Inr (map (\<lambda>(name, rs). (name, if ignore_done rs then 0 else 1)) xs)"
    if "set xs \<subseteq> set rsigs" for xs
    using that by (induction xs) (auto simp: g)
  from assms(1) show "gammas opt = map (\<lambda>(k, v). gamma v) cfgs"
    by (auto simp: sac_init_def Let_def bind_def split: if_splits sum.splits)
  from assms(1) s[of rsigs]
  show "use_dones_in_backup opt
           = map (\<lambda>(name, rs). (name, if ignore_done rs then 0 else 1)) rsigs"
    by (auto simp: sac_init_def Let_def bind_def split: if_splits sum.splits)
qed

lemma q_loss_streams:
  assumes "\<And>k. k < length names \<Longrightarrow>
             map_of q1_out (names ! k) = Some (Vec (q1 (i + k)))
           \<and> map_of q2_out (names ! k) = Some (Vec (q2 (i + k)))
           \<and> map_of rw (names ! k) = Some (r (i + k))
           \<and> map_of (use_dones_in_backup opt) (names ! k) = Some (if ig (i + k) then 0 else 1)
           \<and> i + k < length (gammas opt)
           \<and> map_of target_values (names ! k) = Some (tv (i + k))
           \<and> length (r (i + k)) = length done \<and> length (tv (i + k)) = length done"
  shows "sac_q_loss_streams opt i names q1_out q2_out target_values done rw ms
         = Inr (map (\<lambda>k. half_masked_mse
                            (q_backup (r k) (done_mask (ig k)) done (gammas opt ! k) (tv k))
                            (q1 k) ms) [i ..< i + length names],
                map (\<lambda>k. half_masked_mse
                            (q_backup (r k) (done_mask (ig k)) done (gammas opt ! k) (tv k))
                            (q2 k) ms) [i ..< i + length names])"
  using assms
proof (induction names arbitrary: i)
  case Nil
  then show ?case by simp
next
  case (Cons name names)
  from Cons.prems[of 0] have h0:
    "getitem q1_out name = Inr (Vec (q1 i))" "getitem q2_out name = Inr (Vec (q2 i))"
    "getitem rw name = Inr (r i)"
    "getitem (use_dones_in_backup opt) name = Inr (if ig i then 0 else 1)"
    "list_getitem (gammas opt) (int i) = Inr (gammas opt ! i)"
    "getitem target_values name = Inr (tv i)"
    "length (r i) = length done" "length (tv i) = length done"
    by (simp_all add: getitem_Some list_getitem_nat)
  have rest: "sac_q_loss_streams opt (Suc i) names q1_out q2_out target_values done rw ms
         = Inr (map (\<lambda>k. half_masked_mse
                            (q_backup (r k) (done_mask (ig k)) done (gammas opt ! k) (tv k))
                            (q1 k) ms) [Suc i ..< Suc i + length names],
                map (\<lambda>k. half_masked_mse
                            (q_backup (r k) (done_mask (ig k)) done (gammas opt ! k) (tv k))
                            (q2 k) ms) [Suc i ..< Suc i + length names])"
  proof (rule Cons.IH)
    fix k assume "k < length names"
    with Cons.prems[of "Suc k"] show
      "map_of q1_out (names ! k) = Some (Vec (q1 (Suc i + k)))
           \<and> map_of q2_out (names ! k) = Some (Vec (q2 (Suc i + k)))
           \<and> map_of rw (names ! k) = Some (r (Suc i + k))
           \<and> map_of (use_dones_in_backup opt) (names ! k) = Some (if ig (Suc i + k) then 0 else 1)
           \<and> Suc i + k < length (gammas opt)
           \<and> map_of target_values (names ! k) = Some (tv (Suc i + k))
           \<and> length (r (Suc i + k)) = length done \<and> length (tv (Suc i + k)) = length done"
      by simp
  qed
  have "[i ..< Suc (i + length names)] = i # [Suc i ..< Suc (i + length names)]"
    by (rule upt_conv_Cons) simp
  then have u: "[i ..< i + length (name # names)] = i # [Suc i ..< Suc i + length names]"
    by (simp only: length_Cons add_Suc_right add_Suc)
  show ?case
    unfolding u
    by (simp add: h0 squeeze_def rest q_backup_code[OF h0(7,8)] half_masked_mse_def Let_def)
qed


lemma map_of_use_dones:
  assumes "distinct (map fst rsigs)" "k < length rsigs"
  shows "map_of (map (\<lambda>(name, rs). (name, f rs)) rsigs) (fst (rsigs ! k))
           = Some (f (snd (rsigs ! k)))"
proof -
  have "map_of (map (\<lambda>(name, rs). (name, f rs)) rsigs) = map_option f \<circ> map_of rsigs"
    by (induction rsigs) auto
  moreover have "map_of rsigs (fst (rsigs ! k)) = Some (snd (rsigs ! k))"
    using assms by (metis map_of_is_SomeI nth_mem prod.collapse)
  ultimately show ?thesis by simp
qed

text \<open>
  C1. For an optimizer built by \<open>__init__\<close>, and Q outputs keyed by the reward streams in
  their order, \<open>sac_q_loss\<close> returns for Q1 and for Q2 the mean over the streams of
  \<open>0.5 * masked_mean(mse(backup, q))\<close>, where the backup of stream \<open>k\<close> is
  \<open>reward + (1 - done_mask * done) * gamma * target_value\<close> with the stream's own \<open>gamma\<close>
  and \<open>done_mask = 0\<close> if its reward signal ignores terminal states, else 1.
\<close>

theorem sac_q_loss_spec:
  assumes init: "sac_init pol cfgs rsigs hp h = Inr (opt, calls)"
    and d: "distinct (map fst rsigs)" and len: "length cfgs = length rsigs" and ne: "rsigs \<noteq> []"
    and keys: "map fst q1_out = map fst rsigs"
    and str: "\<And>k. k < length rsigs \<Longrightarrow>
             map_of q1_out (fst (rsigs ! k)) = Some (Vec (q1 k))
           \<and> map_of q2_out (fst (rsigs ! k)) = Some (Vec (q2 k))
           \<and> map_of rw (fst (rsigs ! k)) = Some (r k)
           \<and> map_of target_values (fst (rsigs ! k)) = Some (tv k)
           \<and> length (r k) = length ds \<and> length (tv k) = length ds"
  shows "sac_q_loss opt q1_out q2_out target_values ds rw ms
         = Inr (mean_over_streams
                  (\<lambda>k. half_masked_mse
                         (q_backup (r k) (done_mask (ignore_done (snd (rsigs ! k)))) ds
                            (gamma (snd (cfgs ! k))) (tv k))
                         (q1 k) ms) (length rsigs),
                mean_over_streams
                  (\<lambda>k. half_masked_mse
                         (q_backup (r k) (done_mask (ignore_done (snd (rsigs ! k)))) ds
                            (gamma (snd (cfgs ! k))) (tv k))
                         (q2 k) ms) (length rsigs))"
proof -
  note f = sac_init_fields[OF init d]
  have g: "gammas opt ! k = gamma (snd (cfgs ! k))" if "k < length rsigs" for k
    using that len by (simp add: f(1) split_def)
  have l: "sac_q_loss_streams opt 0 (map fst rsigs) q1_out q2_out target_values ds rw ms
         = Inr (map (\<lambda>k. half_masked_mse
                            (q_backup (r k) (done_mask (ignore_done (snd (rsigs ! k)))) ds
                               (gammas opt ! k) (tv k))
                            (q1 k) ms) [0 ..< 0 + length (map fst rsigs)],
                map (\<lambda>k. half_masked_mse
                            (q_backup (r k) (done_mask (ignore_done (snd (rsigs ! k)))) ds
                               (gammas opt ! k) (tv k))
                            (q2 k) ms) [0 ..< 0 + length (map fst rsigs)])"
  proof (rule q_loss_streams)
    fix k assume k: "k < length (map fst rsigs)"
    then have k': "k < length rsigs" by simp
    from str[OF k'] map_of_use_dones[OF d k', of "\<lambda>rs. if ignore_done rs then 0 else (1::int)"]
      k' len
    show "map_of q1_out (map fst rsigs ! k) = Some (Vec (q1 (0 + k)))
           \<and> map_of q2_out (map fst rsigs ! k) = Some (Vec (q2 (0 + k)))
           \<and> map_of rw (map fst rsigs ! k) = Some (r (0 + k))
           \<and> map_of (use_dones_in_backup opt) (map fst rsigs ! k)
               = Some (if ignore_done (snd (rsigs ! (0 + k))) then 0 else 1)
           \<and> 0 + k < length (gammas opt)
           \<and> map_of target_values (map fst rsigs ! k) = Some (tv (0 + k))
           \<and> length (r (0 + k)) = length ds \<and> length (tv (0 + k)) = length ds"
      by (simp add: f)
  qed
  have m: "map (\<lambda>k. F (gammas opt ! k) k) [0 ..< length rsigs]
             = map (\<lambda>k. F (gamma (snd (cfgs ! k))) k) [0 ..< length rsigs]" for F :: "tfloat \<Rightarrow> nat \<Rightarrow> tfloat"
    by (rule map_cong) (simp_all add: g)
  show ?thesis
    unfolding sac_q_loss_def keys l
    using ne
    by (simp add: stack_mean_def mean_over_streams_def
        m[of "\<lambda>ga k. half_masked_mse (q_backup (r k) (done_mask (ignore_done (snd (rsigs ! k)))) ds ga (tv k)) (q1 k) ms"]
        m[of "\<lambda>ga k. half_masked_mse (q_backup (r k) (done_mask (ignore_done (snd (rsigs ! k)))) ds ga (tv k)) (q2 k) ms"])
qed

lemma w1_init: "\<exists>opt calls. sac_init w1_policy w1_configs w1_signals w1_settings 0 = Inr (opt, calls)"
  by (simp add: sac_init_def w1_policy_def w1_signals_def w1_settings_def getitem_def Let_def)

theorem sac_q_loss_spec_witness:
  "\<exists>opt calls. sac_init w1_policy w1_configs w1_signals w1_settings 0 = Inr (opt, calls)
     \<and> distinct (map fst w1_signals) \<and> length w1_configs = length w1_signals
     \<and> sac_q_loss opt
           [(''extrinsic'', Vec [Fin 0]), (''gail'', Vec [Fin 0])]
           [(''extrinsic'', Vec [Fin 1]), (''gail'', Vec [Fin 1])]
           [(''gail'', [Fin 10]), (''extrinsic'', [Fin 10])]
           [Fin 1]
           [(''extrinsic'', [Fin 1]), (''gail'', [Fin 2])]
           [True]
         = Inr (Fin (61 / 2), Fin 25)"
proof -
  obtain opt calls where i: "sac_init w1_policy w1_configs w1_signals w1_settings 0 = Inr (opt, calls)"
    using w1_init by blast
  have d: "distinct (map fst w1_signals)" and l: "length w1_configs = length w1_signals"
    and n: "w1_signals \<noteq> []"
    and k: "map fst [(''extrinsic'', Vec [Fin 0]), (''gail'', Vec [Fin 0])] = map fst w1_signals"
    by (simp_all add: w1_signals_def w1_configs_def)
  have s: "map_of [(''extrinsic'', Vec [Fin 0]), (''gail'', Vec [Fin 0])] (fst (w1_signals ! k))
             = Some (Vec ([[Fin 0], [Fin 0]] ! k))
           \<and> map_of [(''extrinsic'', Vec [Fin 1]), (''gail'', Vec [Fin 1])] (fst (w1_signals ! k))
             = Some (Vec ([[Fin 1], [Fin 1]] ! k))
           \<and> map_of [(''extrinsic'', [Fin 1]), (''gail'', [Fin 2])] (fst (w1_signals ! k))
             = Some ([[Fin 1], [Fin 2]] ! k)
           \<and> map_of [(''gail'', [Fin 10]), (''extrinsic'', [Fin 10])] (fst (w1_signals ! k))
             = Some ([[Fin 10], [Fin 10]] ! k)
           \<and> length ([[Fin 1], [Fin 2]] ! k) = length [Fin 1]
           \<and> length ([[Fin 10], [Fin 10 :: tfloat]] ! k) = length [Fin 1]"
    if "k < length w1_signals" for k
  proof -
    from that have "k = 0 \<or> k = 1" by (auto simp: w1_signals_def)
    then show ?thesis by (auto simp: w1_signals_def)
  qed
  have e: "[0 ..< length w1_signals] = [0, 1]"
    by (simp add: w1_signals_def upt_rec)
  from sac_q_loss_spec[OF i d l n k s, of "[True]"]
  have "sac_q_loss opt
           [(''extrinsic'', Vec [Fin 0]), (''gail'', Vec [Fin 0])]
           [(''extrinsic'', Vec [Fin 1]), (''gail'', Vec [Fin 1])]
           [(''gail'', [Fin 10]), (''extrinsic'', [Fin 10])]
           [Fin 1]
           [(''extrinsic'', [Fin 1]), (''gail'', [Fin 2])]
           [True]
         = Inr (Fin (61 / 2), Fin 25)"
    unfolding mean_over_streams_def e
    by (simp add: w1_signals_def w1_configs_def half_masked_mse_def q_backup_def done_mask_def
        mse_loss_def masked_mean0_def mask_count_def tsum_def minus_tfloat_def)
  with i d l show ?thesis by blast
qed

subsection \<open>Condensing the Q streams\<close>

lemma tsum_Fin_comp [simp]: "tsum (map (Fin \<circ> f) xs) = Fin (sum_list (map f xs))"
  using tsum_Fin[of "map f xs"] by simp

lemma tsum_Fin_map [simp]: "tsum (map (\<lambda>x. Fin (f x)) xs) = Fin (sum_list (map f xs))"
  using tsum_Fin[of "map f xs"] by (simp add: comp_def)

lemma one_hot_select:
  assumes "a < n" "length xs = n"
  shows "tsum (map2 (*) (one_hot a n) (map Fin xs)) = Fin (xs ! a)"
proof -
  have "map2 (*) (one_hot a n) (map Fin xs)
          = map Fin (map (\<lambda>j. if j = a then xs ! j else 0) [0 ..< n])"
    using assms(2) by (intro nth_equalityI) (simp_all add: one_hot_def)
  moreover have "sum_list (map (\<lambda>j. if j = a then xs ! j else 0) [0 ..< n]) = xs ! a"
    using assms(1) by (simp add: interv_sum_list_conv_sum_set_nat)
  ultimately show ?thesis by simp
qed


lemma length_break_into_branches [simp]: "length (break_into_branches m ns) = length ns"
  by (induction ns arbitrary: m) simp_all

lemma break_into_branches_nth:
  "b < length ns \<Longrightarrow>
     break_into_branches m ns ! b = map (\<lambda>row. take (ns ! b) (drop (sum_list (take b ns)) row)) m"
proof (induction ns arbitrary: m b)
  case Nil
  then show ?case by simp
next
  case (Cons n ns)
  show ?case
  proof (cases b)
    case 0
    then show ?thesis by simp
  next
    case (Suc b')
    with Cons.prems have "b' < length ns" by simp
    from Cons.IH[OF this, of "map (drop n) m"] Suc
    show ?thesis by (simp add: comp_def add.commute)
  qed
qed

lemma actions_to_onehot_nth:
  "b < length ns \<Longrightarrow>
     actions_to_onehot acts ns ! b = map (\<lambda>row. one_hot (row ! b) (ns ! b)) acts"
  by (simp add: actions_to_onehot_def nth_enumerate_eq)

lemma length_actions_to_onehot [simp]: "length (actions_to_onehot acts ns) = length ns"
  by (simp add: actions_to_onehot_def)

lemma sum_list_take_le:
  fixes ns :: "nat list"
  assumes "b < length ns"
  shows "sum_list (take b ns) + ns ! b \<le> sum_list ns"
proof -
  have "sum_list ns = sum_list (take b ns) + sum_list (drop b ns)"
    by (metis append_take_drop_id sum_list_append)
  moreover have "drop b ns = ns ! b # drop (Suc b) ns"
    using assms by (simp add: Cons_nth_drop_Suc)
  ultimately show ?thesis by simp
qed

lemma branch_select:
  assumes b: "b < length ns" and a: "acts ! b < ns ! b" and r: "length row = sum_list ns"
  shows "tsum (map2 (*) (one_hot (acts ! b) (ns ! b))
            (take (ns ! b) (drop (sum_list (take b ns)) (map Fin row))))
         = Fin (selected_q ns row acts b)"
proof -
  from sum_list_take_le[OF b] r
  have l: "length (take (ns ! b) (drop (sum_list (take b ns)) row)) = ns ! b"
    by simp
  have "take (ns ! b) (drop (sum_list (take b ns)) (map Fin row))
          = map Fin (take (ns ! b) (drop (sum_list (take b ns)) row))"
    by (simp add: take_map drop_map)
  moreover from sum_list_take_le[OF b] r a
  have "sum_list (take b ns) \<le> length row" by simp
  ultimately show ?thesis
    using one_hot_select[OF a l] a by (simp add: selected_q_def)
qed


lemma only_action_qs:
  assumes len: "length m = length acts"
    and rows: "\<forall>row \<in> set m. length row = sum_list ns"
    and valid: "\<forall>a \<in> set acts. \<forall>b < length ns. a ! b < ns ! b"
  shows "map (\<lambda>(act, q). sum_dim1 (mul_mat act q))
           (zip (actions_to_onehot acts ns) (break_into_branches (map (map Fin) m) ns))
         = map (\<lambda>b. map (\<lambda>j. Fin (selected_q ns (m ! j) (acts ! j) b)) [0 ..< length acts])
             [0 ..< length ns]"
proof (rule nth_equalityI)
  show "length (map (\<lambda>(act, q). sum_dim1 (mul_mat act q))
           (zip (actions_to_onehot acts ns) (break_into_branches (map (map Fin) m) ns)))
        = length (map (\<lambda>b. map (\<lambda>j. Fin (selected_q ns (m ! j) (acts ! j) b)) [0 ..< length acts])
             [0 ..< length ns])"
    by simp
next
  fix b
  assume "b < length (map (\<lambda>(act, q). sum_dim1 (mul_mat act q))
           (zip (actions_to_onehot acts ns) (break_into_branches (map (map Fin) m) ns)))"
  then have b: "b < length ns" by simp
  have "sum_dim1 (mul_mat (map (\<lambda>row. one_hot (row ! b) (ns ! b)) acts)
          (map (\<lambda>row. take (ns ! b) (drop (sum_list (take b ns)) row)) (map (map Fin) m)))
        = map (\<lambda>j. Fin (selected_q ns (m ! j) (acts ! j) b)) [0 ..< length acts]"
  proof (rule nth_equalityI)
    show "length (sum_dim1 (mul_mat (map (\<lambda>row. one_hot (row ! b) (ns ! b)) acts)
          (map (\<lambda>row. take (ns ! b) (drop (sum_list (take b ns)) row)) (map (map Fin) m))))
        = length (map (\<lambda>j. Fin (selected_q ns (m ! j) (acts ! j) b)) [0 ..< length acts])"
      using len by (simp add: sum_dim1_def mul_mat_def)
  next
    fix j
    assume "j < length (sum_dim1 (mul_mat (map (\<lambda>row. one_hot (row ! b) (ns ! b)) acts)
          (map (\<lambda>row. take (ns ! b) (drop (sum_list (take b ns)) row)) (map (map Fin) m))))"
    then have j: "j < length acts" "j < length m"
      using len by (simp_all add: sum_dim1_def mul_mat_def)
    from j valid b have a: "(acts ! j) ! b < ns ! b" by simp
    from j rows have r: "length (m ! j) = sum_list ns" by simp
    from branch_select[OF b a r] j
    show "sum_dim1 (mul_mat (map (\<lambda>row. one_hot (row ! b) (ns ! b)) acts)
          (map (\<lambda>row. take (ns ! b) (drop (sum_list (take b ns)) row)) (map (map Fin) m))) ! j
        = map (\<lambda>j. Fin (selected_q ns (m ! j) (acts ! j) b)) [0 ..< length acts] ! j"
      by (simp add: sum_dim1_def mul_mat_def)
  qed
  with b show "map (\<lambda>(act, q). sum_dim1 (mul_mat act q))
           (zip (actions_to_onehot acts ns) (break_into_branches (map (map Fin) m) ns)) ! b
        = map (\<lambda>b. map (\<lambda>j. Fin (selected_q ns (m ! j) (acts ! j) b)) [0 ..< length acts])
             [0 ..< length ns] ! b"
    by (simp add: actions_to_onehot_nth break_into_branches_nth)
qed

lemma condense_item:
  assumes ne: "ns \<noteq> []" and len: "length m = length acts"
    and rows: "\<forall>row \<in> set m. length row = sum_list ns"
    and valid: "\<forall>a \<in> set acts. \<forall>b < length ns. a ! b < ns ! b"
  shows "stack_mean_dim0 (map (\<lambda>(act, q). sum_dim1 (mul_mat act q))
           (zip (actions_to_onehot acts ns) (break_into_branches (map (map Fin) m) ns)))
         = Inr (map2 (\<lambda>row a. Fin (condensed_q ns row a)) m acts)"
proof -
  define ts where "ts = map (\<lambda>b. map (\<lambda>j. Fin (selected_q ns (m ! j) (acts ! j) b))
                                   [0 ..< length acts]) [0 ..< length ns]"
  have t0: "ts \<noteq> []" "length ts = length ns" "length (hd ts) = length acts"
    using ne by (simp_all add: ts_def hd_map upt_conv_Cons)
  have col: "map (\<lambda>t. t ! j) ts = map (\<lambda>b. Fin (selected_q ns (m ! j) (acts ! j) b)) [0 ..< length ns]"
    if "j < length acts" for j
    using that by (simp add: ts_def)
  have "map (\<lambda>j. tsum (map (\<lambda>t. t ! j) ts) / Fin (real (length ts))) [0 ..< length (hd ts)]
          = map2 (\<lambda>row a. Fin (condensed_q ns row a)) m acts"
  proof (rule nth_equalityI)
    show "length (map (\<lambda>j. tsum (map (\<lambda>t. t ! j) ts) / Fin (real (length ts))) [0 ..< length (hd ts)])
            = length (map2 (\<lambda>row a. Fin (condensed_q ns row a)) m acts)"
      using len t0 by simp
  next
    fix j
    assume "j < length (map (\<lambda>j. tsum (map (\<lambda>t. t ! j) ts) / Fin (real (length ts)))
                          [0 ..< length (hd ts)])"
    then have j: "j < length acts" using t0 by simp
    with col[OF j] ne len t0
    show "map (\<lambda>j. tsum (map (\<lambda>t. t ! j) ts) / Fin (real (length ts))) [0 ..< length (hd ts)] ! j
            = map2 (\<lambda>row a. Fin (condensed_q ns row a)) m acts ! j"
      by (simp add: condensed_q_def)
  qed
  with t0 show ?thesis
    unfolding only_action_qs[OF len rows valid] ts_def[symmetric]
    by (simp add: stack_mean_dim0_def)
qed


lemma sequence_map_cong:
  "(\<And>x. x \<in> set xs \<Longrightarrow> f x = Inr (g x)) \<Longrightarrow> sequence (map f xs) = Inr (map g xs)"
  by (induction xs) simp_all

text \<open>
  C3. For a discrete action space with branches \<open>ns\<close>, finite logits with one column per
  action and one-hot actions in range, \<open>_condense_q_streams\<close> gives for every stream and
  every sample the average (not the sum) over the branches of the logit selected in
  each branch; with branches \<open>[3, 2]\<close> and the actions \<open>[1, 0]\<close> this is the mean of the
  logits at columns 1 and 3.
\<close>

theorem condense_q_streams_mean:
  assumes ns: "discrete_branches (opt_action_spec opt) = ns" and ne: "ns \<noteq> []"
    and shp: "\<forall>(key, m) \<in> set qs. length m = length acts \<and> (\<forall>row \<in> set m. length row = sum_list ns)"
    and valid: "\<forall>a \<in> set acts. \<forall>b < length ns. a ! b < ns ! b"
  shows "condense_q_streams opt (map (\<lambda>(key, m). (key, Mat (map (map Fin) m))) qs) acts
           = Inr (map (\<lambda>(key, m). (key, Vec (map2 (\<lambda>row a. Fin (condensed_q ns row a)) m acts))) qs)
         \<and> condensed_q [3, 2] row [1, 0] = (row ! 1 + row ! 3) / 2"
proof
  have "sequence (map ((\<lambda>(key, item).
           bind (as_mat item) (\<lambda>item.
             let branched_q = break_into_branches item ns;
                 only_action_qs =
                   map (\<lambda>(act, q). sum_dim1 (mul_mat act q))
                     (zip (actions_to_onehot acts ns) branched_q)
             in bind (stack_mean_dim0 only_action_qs) (\<lambda>c. Inr (key, Vec c))))
           \<circ> (\<lambda>(key, m). (key, Mat (map (map Fin) m)))) qs)
        = Inr (map (\<lambda>(key, m). (key, Vec (map2 (\<lambda>row a. Fin (condensed_q ns row a)) m acts))) qs)"
  proof (rule sequence_map_cong)
    fix x assume x: "x \<in> set qs"
    obtain key m where km: "x = (key, m)" by (cases x)
    with x shp have "length m = length acts" "\<forall>row \<in> set m. length row = sum_list ns"
      by auto
    from condense_item[OF ne this valid] km
    show "((\<lambda>(key, item).
           bind (as_mat item) (\<lambda>item.
             let branched_q = break_into_branches item ns;
                 only_action_qs =
                   map (\<lambda>(act, q). sum_dim1 (mul_mat act q))
                     (zip (actions_to_onehot acts ns) branched_q)
             in bind (stack_mean_dim0 only_action_qs) (\<lambda>c. Inr (key, Vec c))))
           \<circ> (\<lambda>(key, m). (key, Mat (map (map Fin) m)))) x
        = Inr ((\<lambda>(key, m). (key, Vec (map2 (\<lambda>row a. Fin (condensed_q ns row a)) m acts))) x)"
      by (simp add: as_mat_def)
  qed
  then show "condense_q_streams opt (map (\<lambda>(key, m). (key, Mat (map (map Fin) m))) qs) acts
           = Inr (map (\<lambda>(key, m). (key, Vec (map2 (\<lambda>row a. Fin (condensed_q ns row a)) m acts))) qs)"
    by (simp add: condense_q_streams_def ns)
next
  have "[0 ..< length [3, 2 :: nat]] = [0, 1]" by (simp add: upt_rec)
  then show "condensed_q [3, 2] row [1, 0] = (row ! 1 + row ! 3) / 2"
    by (simp add: condensed_q_def selected_q_def)
qed

lemma w3_init:
  "\<exists>opt calls. sac_init w3_policy w1_configs w1_signals w1_settings 0 = Inr (opt, calls)"
  by (simp add: sac_init_def w3_policy_def w1_signals_def w1_settings_def getitem_def Let_def)

theorem condense_q_streams_mean_witness:
  "\<exists>opt calls. sac_init w3_policy w1_configs w1_signals w1_settings 0 = Inr (opt, calls)
     \<and> discrete_branches (opt_action_spec opt) = [3, 2]
     \<and> condense_q_streams opt
           [(''extrinsic'', Mat [[Fin 10, Fin 20, Fin 30, Fin 40, Fin 50]])] [[1, 0]]
         = Inr [(''extrinsic'', Vec [Fin ((20 + 40) / 2)])]"
proof -
  obtain opt calls where i: "sac_init w3_policy w1_configs w1_signals w1_settings 0 = Inr (opt, calls)"
    using w3_init by blast
  then have ns: "discrete_branches (opt_action_spec opt) = [3, 2]"
    by (auto simp: sac_init_def w3_policy_def Let_def bind_def split: sum.splits if_splits)
  have ne: "[3, 2 :: nat] \<noteq> []" by simp
  have shp: "\<forall>(key, m) \<in> set [(''extrinsic'', [[10, 20, 30, 40, 50 :: real]])].
               length m = length [[1, 0 :: nat]] \<and> (\<forall>row \<in> set m. length row = sum_list [3, 2])"
    by simp
  have valid: "\<forall>a \<in> set [[1, 0 :: nat]]. \<forall>b < length [3, 2 :: nat]. a ! b < [3, 2] ! b"
    by (simp add: less_Suc_eq)
  from condense_q_streams_mean[OF ns ne shp valid, of "[10, 20, 30, 40, 50]"]
  have "condense_q_streams opt
           [(''extrinsic'', Mat [[Fin 10, Fin 20, Fin 30, Fin 40, Fin 50]])] [[1, 0]]
         = Inr [(''extrinsic'', Vec [Fin ((20 + 40) / 2)])]"
    by simp
  with i ns show ?thesis by blast
qed

subsection \<open>The structure of update\<close>

lemma bind_eq_Inr: "bind m f = Inr y \<longleftrightarrow> (\<exists>x. m = Inr x \<and> f x = Inr y)"
  by (cases m) (simp_all add: bind_def)

lemma bindE:
  assumes "bind m f = Inr y"
  obtains x where "m = Inr x" "f x = Inr y"
  using assms by (auto simp: bind_eq_Inr)

lemma opt_update_saliency_keeps:
  assumes "opt_update_saliency opt net og ag = Inr opt'"
  shows "policy opt' = policy opt \<and> opt_target_entropy opt' = opt_target_entropy opt
    \<and> tau opt' = tau opt \<and> opt_action_spec opt' = opt_action_spec opt"
  using assms
  by (auto simp: opt_update_saliency_def bind_eq_Inr split: if_splits)

lemma update_mede_Inr:
  assumes "update_mede opt fw st cs = Inr (stats, opt', calls)"
  shows "\<exists>extra ml. stats = st @ extra \<and> calls = cs @ [OptimizerStep MedeOptimizer (fw_decay_lr fw) ml]
    \<and> policy opt' = policy opt \<and> opt_target_entropy opt' = opt_target_entropy opt
    \<and> tau opt' = tau opt \<and> opt_action_spec opt' = opt_action_spec opt"
proof -
  from assms obtain net where n: "opt_mede_network opt = Some net"
    by (auto simp: update_mede_def split: option.splits)
  from assms[unfolded update_mede_def n option.case]
  obtain x where x: "loss net (fw_current_obs fw) (fw_prediction_loss fw) (fw_mu fw)
                  (all_discrete_tensor (fw_log_probs fw)) (fw_dropout fw) (fw_masks fw) = Inr x"
    and r: "(\<lambda>((mede_loss, base_loss, kl_loss, vail_loss, b), net).
               let calls = cs @ [OptimizerStep MedeOptimizer (fw_decay_lr fw) mede_loss];
                   opt = opt\<lparr>opt_mede_network := Some net\<rparr>
               in bind (if Fin 0 < opt_mede_saliency_dropout opt
                        then opt_update_saliency opt net (fw_obs_grads fw) (fw_action_grad fw)
                        else Inr opt)
                    (\<lambda>opt.
                       Inr (st @
                              [(''Policy/MEDE Loss'', mede_loss),
                               (''Policy/MEDE Base'', base_loss),
                               (''Policy/MEDE Variational'', item_or_zero vail_loss),
                               (''Policy/MEDE KL'', item_or_zero kl_loss),
                               (''Policy/MEDE beta'', item_or_zero b)],
                            opt, calls))) x = Inr (stats, opt', calls)"
    by (rule bindE)
  obtain ml bl kl vl b net' where xx: "x = ((ml, bl, kl, vl, b), net')"
    by (cases x) auto
  from r[unfolded xx] show ?thesis
    by (auto simp: Let_def bind_eq_Inr split: if_splits dest: opt_update_saliency_keeps)
qed


lemma update_Inr:
  assumes u: "update opt fw = Inr (stats, opt', calls)"
  shows "\<exists>q1s q2s mv mp q1l q2l v pl el rest.
      update_q_streams opt fw = Inr (q1s, q2s)
    \<and> update_mede_rewards opt fw = Inr (mv, mp)
    \<and> sac_q_loss opt q1s q2s (fw_target_values fw) (fw_dones fw) (fw_rewards fw) (fw_masks fw)
        = Inr (q1l, q2l)
    \<and> sac_value_loss opt (fw_log_probs fw) (fw_value_estimates fw) (fw_q1p_out fw) (fw_q2p_out fw)
        (fw_masks fw) mv = Inr v
    \<and> sac_policy_loss opt (fw_log_probs fw) (fw_q1p_out fw) (fw_masks fw) mp = Inr pl
    \<and> sac_entropy_loss opt (fw_log_probs fw) (fw_masks fw) = Inr el
    \<and> calls = [OptimizerStep PolicyOptimizer (fw_decay_lr fw)
                  (if shared_critic (policy opt) then pl + v else pl),
                OptimizerStep ValueOptimizer (fw_decay_lr fw)
                  (if shared_critic (policy opt) then q1l + q2l else q1l + q2l + v),
                OptimizerStep EntropyOptimizer (fw_decay_lr fw) el,
                SoftUpdate (tau opt)] @ rest
    \<and> (rest = [] \<or> (\<exists>ml. rest = [OptimizerStep MedeOptimizer (fw_decay_lr fw) ml]))
    \<and> map_of stats ''Losses/Value Loss'' = Some v
    \<and> policy opt' = policy opt
    \<and> opt_target_entropy opt' = opt_target_entropy opt
    \<and> tau opt' = tau opt
    \<and> opt_action_spec opt' = opt_action_spec opt"
proof -
  note u' = u[unfolded update_def Let_def]
  from u' obtain x1 where a1: "update_q_streams opt fw = Inr x1" by (rule bindE)
  obtain q1s q2s where x1: "x1 = (q1s, q2s)" by (cases x1)
  note u2 = u'[unfolded a1 x1 bind_def sum.case prod.case, folded bind_def]
  from u2 obtain x2 where a2: "update_mede_rewards opt fw = Inr x2" by (rule bindE)
  obtain mv mp where x2: "x2 = (mv, mp)" by (cases x2)
  note u3 = u2[unfolded a2 x2 bind_def sum.case prod.case, folded bind_def]
  from u3 obtain x3 where a3: "sac_q_loss opt q1s q2s (fw_target_values fw) (fw_dones fw)
      (fw_rewards fw) (fw_masks fw) = Inr x3" by (rule bindE)
  obtain q1l q2l where x3: "x3 = (q1l, q2l)" by (cases x3)
  note u4 = u3[unfolded a3 x3 bind_def sum.case prod.case, folded bind_def]
  from u4 obtain v where a4: "sac_value_loss opt (fw_log_probs fw) (fw_value_estimates fw)
      (fw_q1p_out fw) (fw_q2p_out fw) (fw_masks fw) mv = Inr v" by (rule bindE)
  note u5 = u4[unfolded a4 bind_def sum.case, folded bind_def]
  from u5 obtain pl where a5: "sac_policy_loss opt (fw_log_probs fw) (fw_q1p_out fw)
      (fw_masks fw) mp = Inr pl" by (rule bindE)
  note u6 = u5[unfolded a5 bind_def sum.case, folded bind_def]
  from u6 obtain el where a6: "sac_entropy_loss opt (fw_log_probs fw) (fw_masks fw) = Inr el"
    by (rule bindE)
  note u7 = u6[unfolded a6 bind_def sum.case, folded bind_def]
  show ?thesis
  proof (cases "use_mede opt")
    case False
    with u7 a1 a2 a3 a4 a5 a6 x1 x2 x3 show ?thesis by auto
  next
    case True
    with u7 obtain st cs where
      m: "update_mede (opt\<lparr>opt_log_ent_coef := fw_stepped_log_ent_coef fw\<rparr>) fw st cs
            = Inr (stats, opt', calls)"
      and st: "map_of st ''Losses/Value Loss'' = Some v"
      and cs: "cs = [OptimizerStep PolicyOptimizer (fw_decay_lr fw)
                  (if shared_critic (policy opt) then pl + v else pl),
                OptimizerStep ValueOptimizer (fw_decay_lr fw)
                  (if shared_critic (policy opt) then q1l + q2l else q1l + q2l + v),
                OptimizerStep EntropyOptimizer (fw_decay_lr fw) el,
                SoftUpdate (tau opt)]"
      by auto
    from update_mede_Inr[OF m] obtain extra ml where
      e: "stats = st @ extra" "calls = cs @ [OptimizerStep MedeOptimizer (fw_decay_lr fw) ml]"
        "policy opt' = policy opt" "opt_target_entropy opt' = opt_target_entropy opt"
        "tau opt' = tau opt" "opt_action_spec opt' = opt_action_spec opt"
      by auto
    from st e(1) have "map_of stats ''Losses/Value Loss'' = Some v"
      by (simp add: map_add_Some_iff)
    with a1 a2 a3 a4 a5 a6 x1 x2 x3 e cs show ?thesis by auto
  qed
qed

subsection \<open>A non-finite value loss\<close>

lemma w1_init_eq:
  "sac_init w1_policy w1_configs w1_signals w1_settings 0 = Inr (w1_opt, [SoftUpdate (Fin 1)])"
  by (simp add: sac_init_def w1_policy_def w1_signals_def w1_configs_def w1_settings_def
      getitem_def Let_def w1_opt_def zeros_def)

lemma w6_stages:
  "update_q_streams w1_opt w6_fw
     = Inr ([(''extrinsic'', Vec [Fin 0]), (''gail'', Vec [Fin 0])],
            [(''extrinsic'', Vec [Fin 1]), (''gail'', Vec [Fin 1])])"
  "update_mede_rewards w1_opt w6_fw = Inr ([Fin 0], [Fin 0])"
  by (simp_all add: update_q_streams_def update_mede_rewards_def w1_opt_def w6_fw_def
      discrete_size_def zeros_def)

lemma w6_q_loss:
  "sac_q_loss w1_opt [(''extrinsic'', Vec [Fin 0]), (''gail'', Vec [Fin 0])]
     [(''extrinsic'', Vec [Fin 1]), (''gail'', Vec [Fin 1])]
     (fw_target_values w6_fw) (fw_dones w6_fw) (fw_rewards w6_fw) (fw_masks w6_fw)
   = Inr (Fin (61 / 2), Fin 25)"
  by (simp add: sac_q_loss_def w1_opt_def w6_fw_def getitem_def list_getitem_def squeeze_def
      mse_loss_def masked_mean0_def mask_count_def tsum_def minus_tfloat_def stack_mean_def
      Let_def)

lemma w6_assembled:
  "assembled_value_loss w1_opt (fw_log_probs w6_fw) (fw_value_estimates w6_fw)
     (fw_q1p_out w6_fw) (fw_q2p_out w6_fw) (fw_masks w6_fw) [Fin 0] = Inr PInf"
  by (simp add: assembled_value_loss_def w1_opt_def w6_fw_def getitem_def squeeze_def
      discrete_size_def cont_entropy_term_def sum_dim1_def mul_rows_def badd_def scale_def
      mse_loss_def masked_mean0_def mask_count_def tsum_def minus_tfloat_def stack_mean_def
      Let_def)


lemma sac_value_loss_nonfinite:
  assumes "assembled_value_loss opt lp vs q1p q2p ms mr = Inr v" "isinf v \<or> isnan v"
  shows "sac_value_loss opt lp vs q1p q2p ms mr = Inl (UnityTrainerException ''Inf found'')"
  using assms by (auto simp: sac_value_loss_def)

lemma sac_value_loss_Inr:
  assumes "sac_value_loss opt lp vs q1p q2p ms mr = Inr v"
  shows "\<exists>r. v = Fin r \<and> assembled_value_loss opt lp vs q1p q2p ms mr = Inr (Fin r)"
  using assms
  by (cases v) (auto simp: sac_value_loss_def bind_eq_Inr split: if_splits)

text \<open>
  C6. If the value loss that \<open>sac_value_loss\<close> assembles is infinite or NaN, \<open>update\<close>
  raises \<open>UnityTrainerException\<close> and returns no statistics; an \<open>update\<close> that returns
  statistics had a finite assembled value loss, the one it reports.
\<close>

theorem update_value_loss_nonfinite:
  "(update_q_streams opt fw = Inr (q1s, q2s) \<and> update_mede_rewards opt fw = Inr (mv, mp)
      \<and> sac_q_loss opt q1s q2s (fw_target_values fw) (fw_dones fw) (fw_rewards fw) (fw_masks fw)
          = Inr ql
      \<and> assembled_value_loss opt (fw_log_probs fw) (fw_value_estimates fw) (fw_q1p_out fw)
          (fw_q2p_out fw) (fw_masks fw) mv = Inr v
      \<and> (isinf v \<or> isnan v)
    \<longrightarrow> update opt fw = Inl (UnityTrainerException ''Inf found''))
   \<and> (update opt fw = Inr (stats, opt', calls)
    \<longrightarrow> (\<exists>mv mp r. update_mede_rewards opt fw = Inr (mv, mp)
          \<and> assembled_value_loss opt (fw_log_probs fw) (fw_value_estimates fw) (fw_q1p_out fw)
              (fw_q2p_out fw) (fw_masks fw) mv = Inr (Fin r)
          \<and> map_of stats ''Losses/Value Loss'' = Some (Fin r)))"
proof (intro conjI impI)
  assume a: "update_q_streams opt fw = Inr (q1s, q2s) \<and> update_mede_rewards opt fw = Inr (mv, mp)
      \<and> sac_q_loss opt q1s q2s (fw_target_values fw) (fw_dones fw) (fw_rewards fw) (fw_masks fw)
          = Inr ql
      \<and> assembled_value_loss opt (fw_log_probs fw) (fw_value_estimates fw) (fw_q1p_out fw)
          (fw_q2p_out fw) (fw_masks fw) mv = Inr v
      \<and> (isinf v \<or> isnan v)"
  then have "sac_value_loss opt (fw_log_probs fw) (fw_value_estimates fw) (fw_q1p_out fw)
          (fw_q2p_out fw) (fw_masks fw) mv = Inl (UnityTrainerException ''Inf found'')"
    using sac_value_loss_nonfinite by blast
  with a show "update opt fw = Inl (UnityTrainerException ''Inf found'')"
    by (cases ql) (simp add: update_def Let_def)
next
  assume "update opt fw = Inr (stats, opt', calls)"
  from update_Inr[OF this] obtain mv mp v where
    "update_mede_rewards opt fw = Inr (mv, mp)"
    "sac_value_loss opt (fw_log_probs fw) (fw_value_estimates fw) (fw_q1p_out fw) (fw_q2p_out fw)
        (fw_masks fw) mv = Inr v"
    "map_of stats ''Losses/Value Loss'' = Some v"
    by blast
  with sac_value_loss_Inr[OF this(2)]
  show "\<exists>mv mp r. update_mede_rewards opt fw = Inr (mv, mp)
          \<and> assembled_value_loss opt (fw_log_probs fw) (fw_value_estimates fw) (fw_q1p_out fw)
              (fw_q2p_out fw) (fw_masks fw) mv = Inr (Fin r)
          \<and> map_of stats ''Losses/Value Loss'' = Some (Fin r)"
    by blast
qed

theorem update_value_loss_nonfinite_witness:
  "assembled_value_loss w1_opt (fw_log_probs w6_fw) (fw_value_estimates w6_fw)
     (fw_q1p_out w6_fw) (fw_q2p_out w6_fw) (fw_masks w6_fw) [Fin 0] = Inr PInf
   \<and> isinf PInf
   \<and> update w1_opt w6_fw = Inl (UnityTrainerException ''Inf found'')"
proof -
  have "update_q_streams w1_opt w6_fw
          = Inr ([(''extrinsic'', Vec [Fin 0]), (''gail'', Vec [Fin 0])],
                 [(''extrinsic'', Vec [Fin 1]), (''gail'', Vec [Fin 1])])
      \<and> update_mede_rewards w1_opt w6_fw = Inr ([Fin 0], [Fin 0])
      \<and> sac_q_loss w1_opt [(''extrinsic'', Vec [Fin 0]), (''gail'', Vec [Fin 0])]
            [(''extrinsic'', Vec [Fin 1]), (''gail'', Vec [Fin 1])]
            (fw_target_values w6_fw) (fw_dones w6_fw) (fw_rewards w6_fw) (fw_masks w6_fw)
          = Inr (Fin (61 / 2), Fin 25)
      \<and> assembled_value_loss w1_opt (fw_log_probs w6_fw) (fw_value_estimates w6_fw)
          (fw_q1p_out w6_fw) (fw_q2p_out w6_fw) (fw_masks w6_fw) [Fin 0] = Inr PInf
      \<and> (isinf PInf \<or> isnan PInf)"
    using w6_stages w6_q_loss w6_assembled by simp
  from update_value_loss_nonfinite[THEN conjunct1, THEN mp, OF this] w6_assembled
  show ?thesis by simp
qed

subsection \<open>Shared actor and critic\<close>

lemma w7_value: "sac_value_loss w1_opt (fw_log_probs w7_fw) (fw_value_estimates w7_fw)
     (fw_q1p_out w7_fw) (fw_q2p_out w7_fw) (fw_masks w7_fw) [Fin 0] = Inr (Fin 1)"
  by (simp add: sac_value_loss_def assembled_value_loss_def w1_opt_def w6_fw_def w7_fw_def
      getitem_def squeeze_def
      discrete_size_def cont_entropy_term_def sum_dim1_def mul_rows_def badd_def scale_def
      mse_loss_def masked_mean0_def mask_count_def tsum_def minus_tfloat_def stack_mean_def
      Let_def)

lemma w7_policy: "sac_policy_loss w1_opt (fw_log_probs w7_fw) (fw_q1p_out w7_fw)
     (fw_masks w7_fw) [Fin 0] = Inr (Fin 0)"
  by (simp add: sac_policy_loss_def w1_opt_def w6_fw_def w7_fw_def stack_mean_tensors_def
      squeeze_def stack_mean_dim0_def discrete_size_def mul_rows_def badd_def mean_dim1_def
      masked_mean_def mask_count_def tsum_def minus_tfloat_def Let_def upt_rec)

lemma w7_entropy: "sac_entropy_loss w1_opt (fw_log_probs w7_fw) (fw_masks w7_fw) = Inr (Fin 0)"
  by (simp add: sac_entropy_loss_def w1_opt_def w6_fw_def w7_fw_def
      discrete_size_def sum_dim1_def scale_def
      masked_mean_def mask_count_def tsum_def minus_tfloat_def Let_def)

lemma w7_stages:
  "update_q_streams w1_opt w7_fw
     = Inr ([(''extrinsic'', Vec [Fin 0]), (''gail'', Vec [Fin 0])],
            [(''extrinsic'', Vec [Fin 1]), (''gail'', Vec [Fin 1])])"
  "update_mede_rewards w1_opt w7_fw = Inr ([Fin 0], [Fin 0])"
  by (simp_all add: update_q_streams_def update_mede_rewards_def w1_opt_def w6_fw_def w7_fw_def
      discrete_size_def zeros_def)

lemma w7_q_loss:
  "sac_q_loss w1_opt [(''extrinsic'', Vec [Fin 0]), (''gail'', Vec [Fin 0])]
     [(''extrinsic'', Vec [Fin 1]), (''gail'', Vec [Fin 1])]
     (fw_target_values w7_fw) (fw_dones w7_fw) (fw_rewards w7_fw) (fw_masks w7_fw)
   = Inr (Fin (61 / 2), Fin 25)"
  using w6_q_loss by (simp add: w7_fw_def)

lemma w7_update: "update w1_opt w7_fw = Inr (w7_stats, w1_opt, w7_calls)"
proof -
  have f: "fw_log_probs w7_fw = fw_log_probs w7_fw" ..
  have s: "shared_critic (policy w1_opt) = False" "use_mede w1_opt = False"
    "tau w1_opt = Fin (5 / 1000)" "fw_decay_lr w7_fw = Fin (3 / 10000)"
    "fw_stepped_log_ent_coef w7_fw = \<lparr>lec_discrete = [], lec_continuous = [Fin 0]\<rparr>"
    "w1_opt\<lparr>opt_log_ent_coef := \<lparr>lec_discrete = [], lec_continuous = [Fin 0]\<rparr>\<rparr> = w1_opt"
    "lec_discrete (opt_log_ent_coef w1_opt) = []"
    "lec_continuous (opt_log_ent_coef w1_opt) = [Fin 0]"
    by (simp_all add: w1_opt_def w1_policy_def w7_fw_def w6_fw_def)
  show ?thesis
    unfolding update_def Let_def
    by (simp add: w7_stages w7_q_loss w7_value w7_policy w7_entropy s w7_stats_def w7_calls_def
        tsum_def)
qed


lemma sac_init_policy:
  assumes "sac_init pol cfgs rsigs hp h = Inr (opt, cs)"
  shows "policy opt = pol" "\<not> shared_critic pol" "cs = [SoftUpdate (Fin 1)]"
    "opt_target_entropy opt
       = \<lparr>discrete = map (\<lambda>i. Fin (2 / 10) * tlog (Fin (real i)))
                        (discrete_branches (policy_action_spec pol)),
          continuous = Fin (- 1) * Fin 1 * Fin (real (continuous_size (policy_action_spec pol)))\<rparr>"
  using assms
  by (auto simp: sac_init_def Let_def bind_eq_Inr split: if_splits)

lemma constructed_not_shared: "constructed opt \<Longrightarrow> \<not> shared_critic (policy opt)"
proof (induction rule: constructed.induct)
  case (built pol cfgs rsigs hp h opt cs)
  then show ?case using sac_init_policy(1,2) by metis
next
  case (updated opt fw stats opt' calls)
  from update_Inr[OF updated.hyps(2)] updated.IH show ?case by auto
qed

text \<open>
  C10. \<open>__init__\<close> raises for a policy whose actor and critic share parameters. So for
  every constructed optimizer \<open>policy.shared_critic\<close> is false, \<open>update\<close> never folds the
  value loss into the policy loss: with the Q streams and the MEDE rewards of this very
  update, the policy optimizer steps on the value of \<open>sac_policy_loss\<close> alone and the
  value optimizer on \<open>q1_loss + q2_loss + value_loss\<close>, the values of \<open>sac_q_loss\<close> and
  \<open>sac_value_loss\<close>; the only other steps are the entropy optimizer's and, with MEDE,
  the discriminator's.
\<close>

theorem shared_critic_unreachable:
  "(shared_critic pol \<longrightarrow>
      sac_init pol cfgs rsigs hp h
        = Inl (UnityTrainerException ''SAC does not support SharedActorCritic''))
   \<and> (constructed opt \<longrightarrow>
        \<not> shared_critic (policy opt)
        \<and> (update opt fw = Inr (stats, opt', calls) \<longrightarrow>
             (\<exists>q1s q2s mv mp q1_loss q2_loss value_loss policy_loss entropy_loss rest.
                update_q_streams opt fw = Inr (q1s, q2s)
              \<and> update_mede_rewards opt fw = Inr (mv, mp)
              \<and> sac_q_loss opt q1s q2s (fw_target_values fw) (fw_dones fw) (fw_rewards fw)
                  (fw_masks fw) = Inr (q1_loss, q2_loss)
              \<and> sac_value_loss opt (fw_log_probs fw) (fw_value_estimates fw) (fw_q1p_out fw)
                  (fw_q2p_out fw) (fw_masks fw) mv = Inr value_loss
              \<and> sac_policy_loss opt (fw_log_probs fw) (fw_q1p_out fw) (fw_masks fw) mp
                  = Inr policy_loss
              \<and> sac_entropy_loss opt (fw_log_probs fw) (fw_masks fw) = Inr entropy_loss
              \<and> calls = [OptimizerStep PolicyOptimizer (fw_decay_lr fw) policy_loss,
                          OptimizerStep ValueOptimizer (fw_decay_lr fw)
                            (q1_loss + q2_loss + value_loss),
                          OptimizerStep EntropyOptimizer (fw_decay_lr fw) entropy_loss,
                          SoftUpdate (tau opt)] @ rest
              \<and> (rest = [] \<or> (\<exists>mede_loss.
                     rest = [OptimizerStep MedeOptimizer (fw_decay_lr fw) mede_loss])))))"
proof (intro conjI impI)
  assume "shared_critic pol"
  then show "sac_init pol cfgs rsigs hp h
        = Inl (UnityTrainerException ''SAC does not support SharedActorCritic'')"
    by (simp add: sac_init_def)
next
  assume "constructed opt"
  then show "\<not> shared_critic (policy opt)" by (rule constructed_not_shared)
next
  assume c: "constructed opt" and u: "update opt fw = Inr (stats, opt', calls)"
  from update_Inr[OF u] obtain q1s q2s mv mp q1l q2l v pl el rest where
    s: "update_q_streams opt fw = Inr (q1s, q2s)"
      "update_mede_rewards opt fw = Inr (mv, mp)"
      "sac_q_loss opt q1s q2s (fw_target_values fw) (fw_dones fw) (fw_rewards fw) (fw_masks fw)
         = Inr (q1l, q2l)"
      "sac_value_loss opt (fw_log_probs fw) (fw_value_estimates fw) (fw_q1p_out fw)
         (fw_q2p_out fw) (fw_masks fw) mv = Inr v"
      "sac_policy_loss opt (fw_log_probs fw) (fw_q1p_out fw) (fw_masks fw) mp = Inr pl"
      "sac_entropy_loss opt (fw_log_probs fw) (fw_masks fw) = Inr el"
    and cs: "calls = [OptimizerStep PolicyOptimizer (fw_decay_lr fw)
                  (if shared_critic (policy opt) then pl + v else pl),
                OptimizerStep ValueOptimizer (fw_decay_lr fw)
                  (if shared_critic (policy opt) then q1l + q2l else q1l + q2l + v),
                OptimizerStep EntropyOptimizer (fw_decay_lr fw) el,
                SoftUpdate (tau opt)] @ rest"
    and r: "rest = [] \<or> (\<exists>ml. rest = [OptimizerStep MedeOptimizer (fw_decay_lr fw) ml])"
    by blast
  from cs constructed_not_shared[OF c]
  have cs': "calls = [OptimizerStep PolicyOptimizer (fw_decay_lr fw) pl,
                OptimizerStep ValueOptimizer (fw_decay_lr fw) (q1l + q2l + v),
                OptimizerStep EntropyOptimizer (fw_decay_lr fw) el,
                SoftUpdate (tau opt)] @ rest"
    by simp
  show "\<exists>q1s q2s mv mp q1_loss q2_loss value_loss policy_loss entropy_loss rest.
                update_q_streams opt fw = Inr (q1s, q2s)
              \<and> update_mede_rewards opt fw = Inr (mv, mp)
              \<and> sac_q_loss opt q1s q2s (fw_target_values fw) (fw_dones fw) (fw_rewards fw)
                  (fw_masks fw) = Inr (q1_loss, q2_loss)
              \<and> sac_value_loss opt (fw_log_probs fw) (fw_value_estimates fw) (fw_q1p_out fw)
                  (fw_q2p_out fw) (fw_masks fw) mv = Inr value_loss
              \<and> sac_policy_loss opt (fw_log_probs fw) (fw_q1p_out fw) (fw_masks fw) mp
                  = Inr policy_loss
              \<and> sac_entropy_loss opt (fw_log_probs fw) (fw_masks fw) = Inr entropy_loss
              \<and> calls = [OptimizerStep PolicyOptimizer (fw_decay_lr fw) policy_loss,
                          OptimizerStep ValueOptimizer (fw_decay_lr fw)
                            (q1_loss + q2_loss + value_loss),
                          OptimizerStep EntropyOptimizer (fw_decay_lr fw) entropy_loss,
                          SoftUpdate (tau opt)] @ rest
              \<and> (rest = [] \<or> (\<exists>mede_loss.
                     rest = [OptimizerStep MedeOptimizer (fw_decay_lr fw) mede_loss]))"
    using s cs' r by blast
qed

theorem shared_critic_unreachable_witness:
  "shared_critic (w1_policy\<lparr>shared_critic := True\<rparr>)
   \<and> sac_init (w1_policy\<lparr>shared_critic := True\<rparr>) w1_configs w1_signals w1_settings 0
       = Inl (UnityTrainerException ''SAC does not support SharedActorCritic'')
   \<and> constructed w1_opt \<and> \<not> shared_critic (policy w1_opt)
   \<and> update w1_opt w7_fw = Inr (w7_stats, w1_opt, w7_calls)
   \<and> w7_calls ! 1 = OptimizerStep ValueOptimizer (Fin (3 / 10000)) (Fin (61 / 2) + Fin 25 + Fin 1)"
proof -
  have s: "shared_critic (w1_policy\<lparr>shared_critic := True\<rparr>)" by simp
  have c: "constructed w1_opt" by (rule constructed.built[OF w1_init_eq])
  from shared_critic_unreachable[of "w1_policy\<lparr>shared_critic := True\<rparr>" w1_configs w1_signals
      w1_settings 0 w1_opt w7_fw w7_stats w1_opt w7_calls] s c w7_update
  show ?thesis by (simp add: w7_calls_def)
qed

subsection \<open>The target network and the target entropy\<close>

lemma soft_update_Fin:
  "soft_update (map Fin s) (map Fin x) (Fin t) = map Fin (map2 (\<lambda>s x. t * s + (1 - t) * x) s x)"
  by (simp add: soft_update_def zip_map_map map_zip_map split_def comp_def)

lemma target_after_Fin:
  assumes "length s = length x"
  shows "target_after n (map Fin s) (map Fin x) (Fin t)
           = map Fin (map2 (\<lambda>s x. s + (1 - t) ^ n * (x - s)) s x)"
proof (induction n)
  case 0
  have "map2 (\<lambda>s x. s + (1 - t) ^ 0 * (x - s)) s x = x"
    using assms by (intro nth_equalityI) simp_all
  then show ?case by (simp add: target_after_def)
next
  case (Suc n)
  have "map2 (\<lambda>s y. t * s + (1 - t) * y) s (map2 (\<lambda>s x. s + (1 - t) ^ n * (x - s)) s x)
          = map2 (\<lambda>s x. s + (1 - t) ^ Suc n * (x - s)) s x"
    using assms by (intro nth_equalityI) (simp_all add: algebra_simps)
  with Suc soft_update_Fin[of s "map2 (\<lambda>s x. s + (1 - t) ^ n * (x - s)) s x" t]
  show ?case by (simp add: target_after_def)
qed

lemma gap_tends_to_zero:
  fixes t :: real
  assumes "0 < t" "t \<le> 1"
  shows "(\<lambda>n. a + (1 - t) ^ n * b) \<longlonglongrightarrow> a"
proof -
  have "0 \<le> 1 - t" "1 - t < 1" using assms by simp_all
  then have p: "(\<lambda>n. (1 - t) ^ n) \<longlonglongrightarrow> 0"
    by (rule LIMSEQ_realpow_zero)
  have "(\<lambda>n. (1 - t) ^ n * b) \<longlonglongrightarrow> 0 * b"
    by (rule tendsto_mult[OF p tendsto_const])
  then have "(\<lambda>n. a + (1 - t) ^ n * b) \<longlonglongrightarrow> a + 0 * b"
    by (rule tendsto_add[OF tendsto_const])
  then show ?thesis by simp
qed

text \<open>
  C7. For \<open>0 < t \<le> 1\<close> and finite parameters, after \<open>n\<close> soft updates from a fixed source
  every entry of the target is \<open>source + (1 - t)^n * (target - source)\<close>, which tends to
  the source; with \<open>t = 1\<close> one update makes the target the source. \<open>__init__\<close> makes
  that hard copy, and a completed \<open>update\<close> makes exactly one soft update with \<open>tau\<close>,
  after the steps of the policy, value and entropy optimizers.
\<close>

theorem soft_update_converges:
  assumes "0 < t" "t \<le> 1" "length source = length target"
  shows "(\<forall>n. target_after n (map Fin source) (map Fin target) (Fin t)
               = map Fin (map2 (\<lambda>s x. s + (1 - t) ^ n * (x - s)) source target))
       \<and> (\<forall>i < length source.
             (\<lambda>n. source ! i + (1 - t) ^ n * (target ! i - source ! i)) \<longlonglongrightarrow> source ! i)
       \<and> (t = 1 \<longrightarrow> soft_update (map Fin source) (map Fin target) (Fin t) = map Fin source)
       \<and> (sac_init pol cfgs rsigs hp h = Inr (opt, cs) \<longrightarrow> cs = [SoftUpdate (Fin 1)])
       \<and> (update opt fw = Inr (stats, opt', calls) \<longrightarrow>
            (\<exists>policy_loss total_value_loss entropy_loss rest.
               calls = [OptimizerStep PolicyOptimizer (fw_decay_lr fw) policy_loss,
                        OptimizerStep ValueOptimizer (fw_decay_lr fw) total_value_loss,
                        OptimizerStep EntropyOptimizer (fw_decay_lr fw) entropy_loss,
                        SoftUpdate (tau opt)] @ rest
               \<and> filter is_soft_update rest = []))"
proof (intro conjI impI allI)
  fix n
  show "target_after n (map Fin source) (map Fin target) (Fin t)
               = map Fin (map2 (\<lambda>s x. s + (1 - t) ^ n * (x - s)) source target)"
    by (rule target_after_Fin[OF assms(3)])
next
  fix i
  show "(\<lambda>n. source ! i + (1 - t) ^ n * (target ! i - source ! i)) \<longlonglongrightarrow> source ! i"
    by (rule gap_tends_to_zero[OF assms(1,2)])
next
  assume "t = 1"
  moreover have "map2 (\<lambda>s x. s) source target = source"
    using assms(3) by (intro nth_equalityI) simp_all
  ultimately show "soft_update (map Fin source) (map Fin target) (Fin t) = map Fin source"
    by (simp add: soft_update_Fin)
next
  assume "sac_init pol cfgs rsigs hp h = Inr (opt, cs)"
  then show "cs = [SoftUpdate (Fin 1)]" by (rule sac_init_policy(3))
next
  assume "update opt fw = Inr (stats, opt', calls)"
  from update_Inr[OF this]
  show "\<exists>policy_loss total_value_loss entropy_loss rest.
               calls = [OptimizerStep PolicyOptimizer (fw_decay_lr fw) policy_loss,
                        OptimizerStep ValueOptimizer (fw_decay_lr fw) total_value_loss,
                        OptimizerStep EntropyOptimizer (fw_decay_lr fw) entropy_loss,
                        SoftUpdate (tau opt)] @ rest
               \<and> filter is_soft_update rest = []"
    by (elim exE conjE disjE) auto
qed


theorem soft_update_converges_witness:
  "target_after 2 (map Fin [1]) (map Fin [3]) (Fin (1 / 2)) = [Fin (3 / 2)]
   \<and> (\<lambda>n. [1 :: real] ! 0 + (1 - 1 / 2) ^ n * ([3] ! 0 - [1] ! 0)) \<longlonglongrightarrow> [1] ! 0
   \<and> soft_update (map Fin [1]) (map Fin [3]) (Fin 1) = map Fin [1]
   \<and> sac_init w1_policy w1_configs w1_signals w1_settings 0 = Inr (w1_opt, [SoftUpdate (Fin 1)])
   \<and> update w1_opt w7_fw = Inr (w7_stats, w1_opt, w7_calls)
   \<and> filter is_soft_update w7_calls = [SoftUpdate (tau w1_opt)]"
proof -
  have a: "(0 :: real) < 1 / 2" "(1 / 2 :: real) \<le> 1" "(0 :: real) < 1" "(1 :: real) \<le> 1"
    "length [1 :: real] = length [3 :: real]"
    by simp_all
  note h = soft_update_converges[OF a(1,2,5), where opt = w1_opt and fw = w7_fw
      and stats = w7_stats and opt' = w1_opt and calls = w7_calls]
  note k = soft_update_converges[OF a(3,4,5)]
  from h have "target_after 2 (map Fin [1]) (map Fin [3]) (Fin (1 / 2)) = [Fin (3 / 2)]"
    by (simp add: power2_eq_square)
  moreover from h
  have "(\<lambda>n. [1 :: real] ! 0 + (1 - 1 / 2) ^ n * ([3] ! 0 - [1] ! 0)) \<longlonglongrightarrow> [1] ! 0"
    by simp
  moreover from k have "soft_update (map Fin [1]) (map Fin [3]) (Fin 1) = map Fin [1]"
    by simp
  moreover have "filter is_soft_update w7_calls = [SoftUpdate (tau w1_opt)]"
    by (simp add: w7_calls_def w1_opt_def)
  ultimately show ?thesis
    using w1_init_eq w7_update by simp
qed

text \<open>
  C4. \<open>__init__\<close> sets the continuous target entropy to \<open>-1.0 * continuous_size\<close> and the
  target entropy of a discrete branch of cardinality \<open>k\<close> to \<open>0.2 * log(k)\<close>, which is
  \<open>0.2 * ln k\<close> for \<open>k \<ge> 1\<close>; they depend on the action spec only, and \<open>update\<close> leaves
  them as they are. The casts to \<open>float32\<close> are not represented.
\<close>

theorem target_entropy_fixed:
  "(sac_init pol cfgs rsigs hp h = Inr (opt, cs) \<longrightarrow>
      continuous (opt_target_entropy opt)
        = Fin (- 1 * real (continuous_size (policy_action_spec pol)))
      \<and> length (discrete (opt_target_entropy opt))
          = length (discrete_branches (policy_action_spec pol))
      \<and> (\<forall>i < length (discrete_branches (policy_action_spec pol)).
            discrete (opt_target_entropy opt) ! i
              = Fin (2 / 10) * tlog (Fin (real (discrete_branches (policy_action_spec pol) ! i)))
            \<and> (0 < discrete_branches (policy_action_spec pol) ! i \<longrightarrow>
                 discrete (opt_target_entropy opt) ! i
                   = Fin (2 / 10 * ln (real (discrete_branches (policy_action_spec pol) ! i))))))
   \<and> (update opt fw = Inr (stats, opt', calls) \<longrightarrow>
        opt_target_entropy opt' = opt_target_entropy opt)"
proof (intro conjI impI allI)
  assume i: "sac_init pol cfgs rsigs hp h = Inr (opt, cs)"
  note t = sac_init_policy(4)[OF i]
  show "continuous (opt_target_entropy opt)
        = Fin (- 1 * real (continuous_size (policy_action_spec pol)))"
    by (simp add: t)
  show "length (discrete (opt_target_entropy opt))
          = length (discrete_branches (policy_action_spec pol))"
    by (simp add: t)
  fix i assume "i < length (discrete_branches (policy_action_spec pol))"
  then show "discrete (opt_target_entropy opt) ! i
              = Fin (2 / 10) * tlog (Fin (real (discrete_branches (policy_action_spec pol) ! i)))"
    by (simp add: t)
  moreover assume "0 < discrete_branches (policy_action_spec pol) ! i"
  ultimately show "discrete (opt_target_entropy opt) ! i
                   = Fin (2 / 10 * ln (real (discrete_branches (policy_action_spec pol) ! i)))"
    by simp
next
  assume "update opt fw = Inr (stats, opt', calls)"
  from update_Inr[OF this] show "opt_target_entropy opt' = opt_target_entropy opt"
    by blast
qed

lemma w4_init:
  "\<exists>opt cs. sac_init w4_policy w1_configs w1_signals w1_settings 0 = Inr (opt, cs)"
  by (simp add: sac_init_def w4_policy_def w1_signals_def w1_settings_def getitem_def Let_def)

theorem target_entropy_fixed_witness:
  "(\<exists>opt cs. sac_init w4_policy w1_configs w1_signals w1_settings 0 = Inr (opt, cs)
      \<and> continuous (opt_target_entropy opt) = Fin (- 2)
      \<and> discrete (opt_target_entropy opt) ! 0 = Fin (2 / 10 * ln 3)
      \<and> discrete (opt_target_entropy opt) ! 1 = Fin (2 / 10 * ln 2))
   \<and> update w1_opt w7_fw = Inr (w7_stats, w1_opt, w7_calls)"
proof -
  obtain opt cs where i: "sac_init w4_policy w1_configs w1_signals w1_settings 0 = Inr (opt, cs)"
    using w4_init by blast
  have b: "discrete_branches (policy_action_spec w4_policy) = [3, 2]"
    "continuous_size (policy_action_spec w4_policy) = 2"
    by (simp_all add: w4_policy_def)
  note f = target_entropy_fixed[of w4_policy w1_configs w1_signals w1_settings 0 opt cs,
      THEN conjunct1, THEN mp, OF i, unfolded b]
  from f have "continuous (opt_target_entropy opt) = Fin (- 2)"
    by simp
  moreover from f[THEN conjunct2, THEN conjunct2, rule_format, of 0]
  have "discrete (opt_target_entropy opt) ! 0 = Fin (2 / 10 * ln 3)"
    by simp
  moreover from f[THEN conjunct2, THEN conjunct2, rule_format, of 1]
  have "discrete (opt_target_entropy opt) ! 1 = Fin (2 / 10 * ln 2)"
    by simp
  ultimately have "continuous (opt_target_entropy opt) = Fin (- 2)
      \<and> discrete (opt_target_entropy opt) ! 0 = Fin (2 / 10 * ln 3)
      \<and> discrete (opt_target_entropy opt) ! 1 = Fin (2 / 10 * ln 2)"
    by blast
  with i w7_update show ?thesis by blast
qed

subsection \<open>The value loss with discrete and continuous actions\<close>

lemma c2_init:
  "sac_init c2_policy c2_configs c2_signals w1_settings 0 = Inr (c2_opt, [SoftUpdate (Fin 1)])"
  by (simp add: sac_init_def c2_policy_def c2_signals_def c2_configs_def w1_settings_def
      getitem_def Let_def c2_opt_def zeros_def)

text \<open>
  C2. With discrete and continuous actions the value backup is
  \<open>min_q - mean(branched_ent_bonus) + mede_strength * mede_rewards + sum(alpha_c * log_prob_c)\<close>:
  the continuous term is added, where the path without discrete actions subtracts it.
  On the sample below the minimum Q and the discrete entropy bonus cancel, the continuous
  term is \<open>-1\<close> and the value estimate is 1: the backup is \<open>-1\<close> and the loss
  \<open>0.5 * (1 - (-1))^2 = 2\<close>, not 0. Without discrete actions the same continuous term
  gives the backup \<open>0 - (-1) = 1\<close> and the loss 0.
\<close>

theorem hybrid_backup_adds_continuous_term:
  "sac_init c2_policy c2_configs c2_signals w1_settings 0 = Inr (c2_opt, [SoftUpdate (Fin 1)])
   \<and> sac_value_loss c2_opt c2_log_probs [(''extrinsic'', [Fin 1])] c2_q c2_q [True] [Fin 0]
       = Inr (Fin 2)
   \<and> sac_value_loss w1_opt \<lparr>continuous_tensor = [[Fin (- 1)]], all_discrete_tensor = [[]]\<rparr>
         [(''extrinsic'', [Fin 1])]
         [(''extrinsic'', Vec [Fin 0])] [(''extrinsic'', Vec [Fin 0])] [True] [Fin 0]
       = Inr (Fin 0)"
proof -
  have h: "sac_value_loss c2_opt c2_log_probs [(''extrinsic'', [Fin 1])] c2_q c2_q [True] [Fin 0]
       = Inr (Fin 2)"
    by (simp add: sac_value_loss_def assembled_value_loss_def c2_opt_def c2_log_probs_def c2_q_def
        getitem_def list_getitem_def as_mat_def discrete_size_def branch_mean_def
        stack_mean_dim0_def exp_mat_def mul_mat_def scale_mat_def
        cont_entropy_term_def sum_dim1_def mul_rows_def badd_def scale_def
        mse_loss_def masked_mean0_def mask_count_def tsum_def minus_tfloat_def stack_mean_def
        Let_def)
  have c: "sac_value_loss w1_opt \<lparr>continuous_tensor = [[Fin (- 1)]], all_discrete_tensor = [[]]\<rparr>
         [(''extrinsic'', [Fin 1])]
         [(''extrinsic'', Vec [Fin 0])] [(''extrinsic'', Vec [Fin 0])] [True] [Fin 0]
       = Inr (Fin 0)"
    by (simp add: sac_value_loss_def assembled_value_loss_def w1_opt_def
        getitem_def squeeze_def discrete_size_def
        cont_entropy_term_def sum_dim1_def mul_rows_def badd_def scale_def
        mse_loss_def masked_mean0_def mask_count_def tsum_def minus_tfloat_def stack_mean_def
        Let_def)
  from c2_init h c show ?thesis by blast
qed

end
